theory Spec2Isabelle
  imports Main "HOL-Library.Finite_Map" "HOL-Library.Char_ord" "HOL-Library.List_Lexorder"
begin

section \<open>Data model of the community module\<close>

text \<open>
  The module \<^verbatim>\<open>src/modules/community/notifications.ts\<close> holds the notification
  service, the notification and subscription routes, and the community routes (groups,
  posts, comments, reactions). All of them work on one storage client. The storage is
  modelled as a record of tables that every operation takes and returns.

  A JavaScript string is a sequence of UTF-16 code units; \<^verbatim>\<open>length\<close> and
  \<^verbatim>\<open>substring\<close> count code units. A \<^typ>\<open>char\<close> of the model stands for one code
  unit. Times are milliseconds, as a natural number.
\<close>

datatype NotificationType =
    MENTION | REPLY | REACTION | POST_APPROVED | POST_REJECTED | POST_CREATED
  | GROUP_INVITE | GROUP_JOIN_REQUEST | MODERATION_ACTION | SYSTEM_ANNOUNCEMENT

datatype notification_status = Scheduled | Delivered

text \<open>The \<^verbatim>\<open>data\<close> object of a payload, one constructor for each shape the module builds.\<close>

datatype payload_data =
    MentionData string string string string
  | ReplyData string string string string
  | ReactionData string string string string
  | ApprovalData string string bool
  | JoinData string string string
  | PostCreatedData string string string

record NotificationPayload =
  pl_type :: NotificationType
  pl_title :: string
  pl_message :: string
  pl_data :: payload_data
  pl_actionUrl :: "string option"

record notification =
  n_id :: string
  n_userId :: string
  n_type :: NotificationType
  n_title :: string
  n_message :: string
  n_scheduledFor :: nat
  n_status :: notification_status
  n_data :: payload_data
  n_actionUrl :: "string option"
  n_createdAt :: nat
  n_readAt :: "nat option"

record user =
  u_name :: "string option"
  u_handle :: "string option"

record post =
  post_id :: string
  post_title :: "string option"
  post_content :: string
  post_authorId :: string
  post_groupId :: "string option"
  post_status :: string
  post_reactionCount :: int
  post_commentCount :: int
  post_createdAt :: nat

record comment =
  c_id :: string
  c_postId :: string
  c_authorId :: string
  c_content :: string
  c_parentId :: "string option"
  c_reactionCount :: int

record reaction =
  r_id :: string
  r_type :: string

record subscription =
  sub_inApp :: bool
  sub_email :: bool
  sub_push :: bool

record community_group =
  g_id :: string
  g_slug :: string
  g_name :: string
  g_ownerId :: string
  g_visibility :: string

record group_member =
  gm_groupId :: string
  gm_userId :: string
  gm_role :: string
  gm_status :: string

text \<open>
  The reaction table has the unique key \<^verbatim>\<open>targetType_targetId_userId\<close> and the
  subscription table the unique key \<^verbatim>\<open>userId_targetType_targetId\<close>: each is a finite
  map from its key triple to the rest of the row, so that the storage layer's uniqueness
  constraint holds by construction. A row's generated \<^verbatim>\<open>id\<close> is its primary key, so
  deleting by the id of the row found under a key removes that key's row.
  The other tables are lists of rows in storage order. \<^verbatim>\<open>console\<close> collects what
  \<^verbatim>\<open>console.error\<close> prints.
\<close>

record db =
  notifications :: "notification list"
  users :: "string \<rightharpoonup> user"
  posts :: "post list"
  comments :: "comment list"
  reactions :: "(string \<times> string \<times> string, reaction) fmap"
  subscriptions :: "(string \<times> string \<times> string, subscription) fmap"
  groups :: "community_group list"
  members :: "group_member list"
  console :: "string list"

text \<open>
  What a request takes from outside the tables: the clock (\<^verbatim>\<open>new Date()\<close>), the ids the
  storage layer generates for the rows the request creates (\<^verbatim>\<open>row_id\<close> for the row of
  the primary action, \<^verbatim>\<open>notif_id k\<close> for the k-th notification), and whether a storage
  call made while a notification is being prepared rejects: the insert of the
  notification, and the lookups of a user, a post or the group members that precede it.
\<close>

record env =
  now :: nat
  row_id :: string
  notif_id :: "nat \<Rightarrow> string"
  notif_create_fails :: bool
  user_lookup_fails :: bool
  post_lookup_fails :: bool
  members_lookup_fails :: bool

datatype error =
    RecordNotFound | ForeignKeyViolation | StorageFailure | QueryInvalid
  | ValidationError | TypeError

text \<open>
  A route either sends a response (\<^verbatim>\<open>res.status(n).json(body)\<close>) or passes an error on
  (\<^verbatim>\<open>next(error)\<close>).
\<close>

datatype 'b response = Respond nat 'b | Forward error

text \<open>\<^verbatim>\<open>!userId\<close> holds for a missing id and for the empty string.\<close>

definition authenticated :: "string option \<Rightarrow> bool" where
  "authenticated userId = (case userId of None \<Rightarrow> False | Some u \<Rightarrow> u \<noteq> [])"

text \<open>
  Modelled from the spec: the error-handling middleware behind \<^verbatim>\<open>next(error)\<close>, which is
  not part of the module. The spec's error taxonomy makes an absent entity a NotFound,
  404-equivalent, and a malformed input a 400-equivalent; every other error is a server error.
\<close>

definition error_status :: "error \<Rightarrow> nat" where
  "error_status err =
     (case err of RecordNotFound \<Rightarrow> 404 | QueryInvalid \<Rightarrow> 400 | ValidationError \<Rightarrow> 400
      | _ \<Rightarrow> 500)"

definition http_status :: "'b response \<Rightarrow> nat" where
  "http_status r = (case r of Respond n _ \<Rightarrow> n | Forward err \<Rightarrow> error_status err)"

section \<open>NotificationService\<close>

text \<open>
  Modelled from the spec: the Notification schema is not part of the module. A created row
  gets a generated id, \<^verbatim>\<open>createdAt\<close> the time of creation, and \<^verbatim>\<open>readAt\<close> null until
  the row is read.
\<close>

definition new_notification :: "env \<Rightarrow> nat \<Rightarrow> string \<Rightarrow> NotificationPayload \<Rightarrow> notification" where
  "new_notification e k userId payload =
     \<lparr> n_id = notif_id e k, n_userId = userId, n_type = pl_type payload,
       n_title = pl_title payload, n_message = pl_message payload,
       n_scheduledFor = now e, n_status = Scheduled,
       n_data = pl_data payload, n_actionUrl = pl_actionUrl payload,
       n_createdAt = now e, n_readAt = None \<rparr>"

text \<open>\<^verbatim>\<open>prisma.notification.create\<close> and \<^verbatim>\<open>createMany\<close>: all rows or an error.\<close>

definition notification_createMany :: "env \<Rightarrow> notification list \<Rightarrow> db \<Rightarrow> error + db" where
  "notification_createMany e rows s =
     (if notif_create_fails e then Inl StorageFailure
      else Inr (s\<lparr>notifications := notifications s @ rows\<rparr>))"

definition createNotification :: "env \<Rightarrow> string \<Rightarrow> NotificationPayload \<Rightarrow> db \<Rightarrow> error + db" where
  "createNotification e userId payload s =
     (case notification_createMany e [new_notification e 0 userId payload] s of
        Inr s' \<Rightarrow> Inr s'
      | Inl err \<Rightarrow> Inr (s\<lparr>console := console s @ [''Error creating notification:'']\<rparr>))"

definition createBulkNotifications :: "env \<Rightarrow> string list \<Rightarrow> NotificationPayload \<Rightarrow> db \<Rightarrow> error + db" where
  "createBulkNotifications e userIds payload s =
     (case notification_createMany e
             (map (\<lambda>(k, userId). new_notification e k userId payload) (enumerate 0 userIds)) s of
        Inr s' \<Rightarrow> Inr s'
      | Inl err \<Rightarrow> Inr (s\<lparr>console := console s @ [''Error creating bulk notifications:'']\<rparr>))"

text \<open>
  \<^verbatim>\<open>prisma.user.findUnique\<close> and \<^verbatim>\<open>prisma.post.findUnique\<close> as the service and the
  notification blocks of the routes call them: the row, null, or a rejection.
\<close>

definition user_findUnique :: "env \<Rightarrow> string \<Rightarrow> db \<Rightarrow> error + user option" where
  "user_findUnique e userId s =
     (if user_lookup_fails e then Inl StorageFailure else Inr (users s userId))"

definition post_findUnique :: "env \<Rightarrow> string \<Rightarrow> db \<Rightarrow> error + post option" where
  "post_findUnique e postId s =
     (if post_lookup_fails e then Inl StorageFailure
      else Inr (find (\<lambda>p. post_id p = postId) (posts s)))"

text \<open>
  \<^verbatim>\<open>${x.name || x.handle}\<close>: the name unless it is null or empty, else the handle as the
  template prints it.
\<close>

definition template_text :: "string option \<Rightarrow> string" where
  "template_text v = (case v of None \<Rightarrow> ''null'' | Some t \<Rightarrow> t)"

definition display_name :: "user \<Rightarrow> string" where
  "display_name u =
     (case u_name u of
        None \<Rightarrow> template_text (u_handle u)
      | Some n \<Rightarrow> if n = [] then template_text (u_handle u) else n)"

text \<open>\<^verbatim>\<open>content.substring(0, 100) + (content.length > 100 ? '...' : '')\<close>\<close>

definition content_excerpt :: "string \<Rightarrow> string" where
  "content_excerpt content = take 100 content @ (if length content > 100 then ''...'' else [])"

definition action_url :: "string \<Rightarrow> string \<Rightarrow> string" where
  "action_url targetType targetId =
     (if targetType = ''post'' then ''/posts/'' @ targetId
      else ''/posts/'' @ targetId @ ''#comment-'' @ targetId)"

definition target_word :: "string \<Rightarrow> string" where
  "target_word targetType = (if targetType = ''post'' then ''Post'' else ''Kommentar'')"

definition sendMentionNotification ::
  "env \<Rightarrow> string \<Rightarrow> string \<Rightarrow> string \<Rightarrow> string \<Rightarrow> string \<Rightarrow> db \<Rightarrow> error + db" where
  "sendMentionNotification e mentionedUserId mentionerId targetType targetId content s =
     (case user_findUnique e mentionerId s of
        Inl err \<Rightarrow> Inl err
      | Inr None \<Rightarrow> Inr s
      | Inr (Some mentioner) \<Rightarrow>
          createNotification e mentionedUserId
            \<lparr> pl_type = MENTION,
              pl_title = ''Du wurdest erw'' @ [CHR 0xE4] @ ''hnt'',
              pl_message = display_name mentioner @ '' hat dich in einem ''
                 @ target_word targetType @ '' erw'' @ [CHR 0xE4] @ ''hnt'',
              pl_data = MentionData mentionerId targetType targetId (content_excerpt content),
              pl_actionUrl = Some (action_url targetType targetId) \<rparr> s)"

definition sendReplyNotification ::
  "env \<Rightarrow> string \<Rightarrow> string \<Rightarrow> string \<Rightarrow> string \<Rightarrow> string \<Rightarrow> db \<Rightarrow> error + db" where
  "sendReplyNotification e originalAuthorId replierId postId commentId content s =
     (case user_findUnique e replierId s of
        Inl err \<Rightarrow> Inl err
      | Inr None \<Rightarrow> Inr s
      | Inr (Some replier) \<Rightarrow>
          if originalAuthorId = replierId then Inr s
          else createNotification e originalAuthorId
            \<lparr> pl_type = REPLY,
              pl_title = ''Neue Antwort'',
              pl_message = display_name replier @ '' hat auf deinen Post geantwortet'',
              pl_data = ReplyData replierId postId commentId (content_excerpt content),
              pl_actionUrl = Some (''/posts/'' @ postId @ ''#comment-'' @ commentId) \<rparr> s)"

definition sendReactionNotification ::
  "env \<Rightarrow> string \<Rightarrow> string \<Rightarrow> string \<Rightarrow> string \<Rightarrow> string \<Rightarrow> db \<Rightarrow> error + db" where
  "sendReactionNotification e contentAuthorId reactorId targetType targetId reactionType s =
     (case user_findUnique e reactorId s of
        Inl err \<Rightarrow> Inl err
      | Inr None \<Rightarrow> Inr s
      | Inr (Some reactor) \<Rightarrow>
          if contentAuthorId = reactorId then Inr s
          else createNotification e contentAuthorId
            \<lparr> pl_type = REACTION,
              pl_title = ''Neue Reaktion'',
              pl_message = display_name reactor @ '' hat deinen '' @ target_word targetType
                 @ '' mit '' @ reactionType @ '' reagiert'',
              pl_data = ReactionData reactorId targetType targetId reactionType,
              pl_actionUrl = Some (action_url targetType targetId) \<rparr> s)"

text \<open>
  The approval builder reads the post with its group. \<^verbatim>\<open>post.group.name\<close> throws a
  TypeError when the post has no group.
\<close>

definition post_title_text :: "post \<Rightarrow> string" where
  "post_title_text p =
     (case post_title p of None \<Rightarrow> ''Ohne Titel'' | Some t \<Rightarrow> if t = [] then ''Ohne Titel'' else t)"

definition post_group :: "post \<Rightarrow> db \<Rightarrow> community_group option" where
  "post_group p s =
     (case post_groupId p of None \<Rightarrow> None | Some g \<Rightarrow> find (\<lambda>x. g_id x = g) (groups s))"

definition sendPostApprovalNotification ::
  "env \<Rightarrow> string \<Rightarrow> string \<Rightarrow> bool \<Rightarrow> db \<Rightarrow> error + db" where
  "sendPostApprovalNotification e authorId postId approved s =
     (case post_findUnique e postId s of
        Inl err \<Rightarrow> Inl err
      | Inr None \<Rightarrow> Inr s
      | Inr (Some p) \<Rightarrow>
          (case post_group p s of
             None \<Rightarrow> Inl TypeError
           | Some g \<Rightarrow>
               createNotification e authorId
                 \<lparr> pl_type = (if approved then POST_APPROVED else POST_REJECTED),
                   pl_title = (if approved then ''Post genehmigt'' else ''Post abgelehnt''),
                   pl_message = ''Dein Post '' @ [CHR 0x22] @ post_title_text p @ [CHR 0x22]
                      @ '' in '' @ g_name g @ '' wurde ''
                      @ (if approved then ''genehmigt'' else ''abgelehnt''),
                   pl_data = ApprovalData postId (g_name g) approved,
                   pl_actionUrl = (if approved then Some (''/posts/'' @ postId) else None) \<rparr> s))"

section \<open>Notification inbox routes\<close>

text \<open>The JSON bodies of the responses, one constructor for each shape.\<close>

record pagination =
  pg_page :: int
  pg_limit :: int
  pg_total :: nat
  pg_pages :: "int option"
  pg_hasMore :: "bool option"

record notification_view =
  v_id :: string
  v_type :: NotificationType
  v_title :: string
  v_message :: string
  v_isRead :: bool
  v_createdAt :: nat
  v_data :: payload_data
  v_actionUrl :: "string option"

datatype body =
    ErrorBody string
  | MessageBody string
  | NotificationBody notification
  | InboxBody "notification_view list" nat pagination
  | FeedBody "post list" pagination
  | ReactionBody "string option" string "reaction option"
  | CommentBody comment string
  | PostBody post string
  | MembershipBody group_member

text \<open>\<^verbatim>\<open>POST /notifications/:id/read\<close>\<close>

definition mark_as_read :: "env \<Rightarrow> notification \<Rightarrow> notification" where
  "mark_as_read e n = n\<lparr>n_readAt := Some (now e), n_status := Delivered\<rparr>"

definition markRead :: "env \<Rightarrow> string option \<Rightarrow> string \<Rightarrow> db \<Rightarrow> db \<times> body response" where
  "markRead e userId i s =
     (if \<not> authenticated userId then (s, Respond 401 (ErrorBody ''Authentication required''))
      else case find (\<lambda>n. n_id n = i) (notifications s) of
        None \<Rightarrow> (s, Respond 404 (ErrorBody ''Notification not found''))
      | Some n \<Rightarrow>
          if Some (n_userId n) \<noteq> userId then (s, Respond 403 (ErrorBody ''Not authorized''))
          else (s\<lparr>notifications :=
                    map (\<lambda>m. if n_id m = i then mark_as_read e m else m) (notifications s)\<rparr>,
                Respond 200 (NotificationBody (mark_as_read e n))))"

text \<open>\<^verbatim>\<open>POST /notifications/read-all\<close>\<close>

definition markAllRead :: "env \<Rightarrow> string option \<Rightarrow> db \<Rightarrow> db \<times> body response" where
  "markAllRead e userId s =
     (if \<not> authenticated userId then (s, Respond 401 (ErrorBody ''Authentication required''))
      else (s\<lparr>notifications :=
                map (\<lambda>n. if Some (n_userId n) = userId \<and> n_readAt n = None
                          then mark_as_read e n else n) (notifications s)\<rparr>,
            Respond 200 (MessageBody ''All notifications marked as read'')))"

section \<open>Subscription routes\<close>

text \<open>
  \<^verbatim>\<open>DELETE /subscriptions/:targetType/:targetId\<close>. \<^verbatim>\<open>prisma.subscription.delete\<close>
  rejects when no row has the key; the route passes that error on.
\<close>

definition subscription_delete ::
  "string \<times> string \<times> string \<Rightarrow> db \<Rightarrow> error + db" where
  "subscription_delete key s =
     (case fmlookup (subscriptions s) key of
        None \<Rightarrow> Inl RecordNotFound
      | Some _ \<Rightarrow> Inr (s\<lparr>subscriptions := fmdrop key (subscriptions s)\<rparr>))"

definition unsubscribe :: "string option \<Rightarrow> string \<Rightarrow> string \<Rightarrow> db \<Rightarrow> db \<times> body response" where
  "unsubscribe userId targetType targetId s =
     (case userId of
        None \<Rightarrow> (s, Respond 401 (ErrorBody ''Authentication required''))
      | Some u \<Rightarrow>
          if u = [] then (s, Respond 401 (ErrorBody ''Authentication required''))
          else (case subscription_delete (u, targetType, targetId) s of
            Inl err \<Rightarrow> (s, Forward err)
          | Inr s' \<Rightarrow> (s', Respond 200 (MessageBody ''Unsubscribed successfully''))))"

section \<open>Reaction routes\<close>

text \<open>
  \<^verbatim>\<open>prisma.post.update\<close> and \<^verbatim>\<open>prisma.comment.update\<close> with
  \<^verbatim>\<open>{ reactionCount: { increment: 1 } }\<close> or \<^verbatim>\<open>{ decrement: 1 }\<close>: the storage layer
  adds to the stored counter, and rejects when no row has the id.
\<close>

definition post_update :: "string \<Rightarrow> (post \<Rightarrow> post) \<Rightarrow> db \<Rightarrow> error + db" where
  "post_update postId f s =
     (case find (\<lambda>p. post_id p = postId) (posts s) of
        None \<Rightarrow> Inl RecordNotFound
      | Some _ \<Rightarrow> Inr (s\<lparr>posts := map (\<lambda>p. if post_id p = postId then f p else p) (posts s)\<rparr>))"

definition comment_update :: "string \<Rightarrow> (comment \<Rightarrow> comment) \<Rightarrow> db \<Rightarrow> error + db" where
  "comment_update commentId f s =
     (case find (\<lambda>c. c_id c = commentId) (comments s) of
        None \<Rightarrow> Inl RecordNotFound
      | Some _ \<Rightarrow>
          Inr (s\<lparr>comments := map (\<lambda>c. if c_id c = commentId then f c else c) (comments s)\<rparr>))"

definition post_reactions_add :: "int \<Rightarrow> post \<Rightarrow> post" where
  "post_reactions_add d p = p\<lparr>post_reactionCount := post_reactionCount p + d\<rparr>"

definition comment_reactions_add :: "int \<Rightarrow> comment \<Rightarrow> comment" where
  "comment_reactions_add d c = c\<lparr>c_reactionCount := c_reactionCount c + d\<rparr>"

text \<open>
  A \<^verbatim>\<open>try { ... } catch (error) { console.error(msg, error) }\<close> around a notification
  block: the block's error is printed and the request goes on. A block changes the storage
  only in its last step, so the storage at the catch is the one before the block.
\<close>

definition swallow :: "string \<Rightarrow> db \<Rightarrow> error + db \<Rightarrow> db" where
  "swallow msg s r = (case r of Inr s' \<Rightarrow> s' | Inl _ \<Rightarrow> s\<lparr>console := console s @ [msg]\<rparr>)"

definition default_type :: "string option \<Rightarrow> string" where
  "default_type t = (case t of None \<Rightarrow> ''like'' | Some k \<Rightarrow> k)"

text \<open>The notification block of \<^verbatim>\<open>POST /posts/:id/reactions\<close>.\<close>

definition reaction_notification_block :: "env \<Rightarrow> string \<Rightarrow> string \<Rightarrow> string \<Rightarrow> db \<Rightarrow> error + db" where
  "reaction_notification_block e u postId kind s =
     (case post_findUnique e postId s of
        Inl err \<Rightarrow> Inl err
      | Inr None \<Rightarrow> Inr s
      | Inr (Some p) \<Rightarrow>
          if post_authorId p \<noteq> u
          then sendReactionNotification e (post_authorId p) u ''post'' postId kind s
          else Inr s)"

text \<open>\<^verbatim>\<open>POST /posts/:id/reactions\<close>\<close>

definition react_to_post ::
  "env \<Rightarrow> string option \<Rightarrow> string \<Rightarrow> string option \<Rightarrow> db \<Rightarrow> db \<times> body response" where
  "react_to_post e userId postId type s =
     (case userId of
        None \<Rightarrow> (s, Respond 401 (ErrorBody ''Authentication required''))
      | Some u \<Rightarrow>
          if u = [] then (s, Respond 401 (ErrorBody ''Authentication required''))
          else (case find (\<lambda>p. post_id p = postId) (posts s) of
            None \<Rightarrow> (s, Respond 404 (ErrorBody ''Post not found''))
          | Some _ \<Rightarrow>
              (case fmlookup (reactions s) (''post'', postId, u) of
                 Some existingReaction \<Rightarrow>
                   (let s1 = s\<lparr>reactions := fmdrop (''post'', postId, u) (reactions s)\<rparr>
                    in case post_update postId (post_reactions_add (- 1)) s1 of
                         Inl err \<Rightarrow> (s1, Forward err)
                       | Inr s2 \<Rightarrow>
                           (s2, Respond 200
                                  (ReactionBody (Some ''Like erfolgreich entfernt!'') ''removed'' None)))
               | None \<Rightarrow>
                   (let r = \<lparr>r_id = row_id e, r_type = default_type type\<rparr>;
                        s1 = s\<lparr>reactions := fmupd (''post'', postId, u) r (reactions s)\<rparr>
                    in case post_update postId (post_reactions_add 1) s1 of
                         Inl err \<Rightarrow> (s1, Forward err)
                       | Inr s2 \<Rightarrow>
                           (swallow ''Error sending reaction notification:'' s2
                              (reaction_notification_block e u postId (default_type type) s2),
                            Respond 200
                              (ReactionBody (Some ''Post erfolgreich geliked!'') ''added'' (Some r)))))))"

text \<open>
  \<^verbatim>\<open>POST /reactions\<close>: the target type and id come from the request body as they are.
\<close>

definition counter_update :: "string \<Rightarrow> string \<Rightarrow> int \<Rightarrow> db \<Rightarrow> error + db" where
  "counter_update targetType targetId d s =
     (if targetType = ''post'' then post_update targetId (post_reactions_add d) s
      else if targetType = ''comment'' then comment_update targetId (comment_reactions_add d) s
      else Inr s)"

definition add_reaction ::
  "env \<Rightarrow> string option \<Rightarrow> string \<Rightarrow> string \<Rightarrow> string option \<Rightarrow> db \<Rightarrow> db \<times> body response" where
  "add_reaction e userId targetType targetId type s =
     (case userId of
        None \<Rightarrow> (s, Respond 401 (ErrorBody ''Authentication required''))
      | Some u \<Rightarrow>
          if u = [] then (s, Respond 401 (ErrorBody ''Authentication required''))
          else (case fmlookup (reactions s) (targetType, targetId, u) of
             Some existingReaction \<Rightarrow>
               (let s1 = s\<lparr>reactions := fmdrop (targetType, targetId, u) (reactions s)\<rparr>
                in case counter_update targetType targetId (- 1) s1 of
                     Inl err \<Rightarrow> (s1, Forward err)
                   | Inr s2 \<Rightarrow> (s2, Respond 200 (ReactionBody None ''removed'' None)))
           | None \<Rightarrow>
               (let r = \<lparr>r_id = row_id e, r_type = default_type type\<rparr>;
                    s1 = s\<lparr>reactions := fmupd (targetType, targetId, u) r (reactions s)\<rparr>
                in case counter_update targetType targetId 1 s1 of
                     Inl err \<Rightarrow> (s1, Forward err)
                   | Inr s2 \<Rightarrow> (s2, Respond 201 (ReactionBody None ''added'' (Some r))))))"

text \<open>
  The ledger and the counters as the claims read them: the live rows of a target, over all
  users, and the target's stored \<^verbatim>\<open>reactionCount\<close>.
\<close>

definition on_target :: "string \<Rightarrow> string \<Rightarrow> string \<times> string \<times> string \<Rightarrow> bool" where
  "on_target targetType targetId key = (fst key = targetType \<and> fst (snd key) = targetId)"

definition live_rows :: "db \<Rightarrow> string \<Rightarrow> string \<Rightarrow> nat" where
  "live_rows s targetType targetId =
     fcard (ffilter (on_target targetType targetId) (fmdom (reactions s)))"

definition has_reaction :: "db \<Rightarrow> string \<Rightarrow> string \<Rightarrow> string \<Rightarrow> bool" where
  "has_reaction s targetType targetId u = ((targetType, targetId, u) |\<in>| fmdom (reactions s))"

definition reactionCount :: "db \<Rightarrow> string \<Rightarrow> string \<Rightarrow> int option" where
  "reactionCount s targetType targetId =
     (if targetType = ''post''
      then map_option post_reactionCount (find (\<lambda>p. post_id p = targetId) (posts s))
      else if targetType = ''comment''
      then map_option c_reactionCount (find (\<lambda>c. c_id c = targetId) (comments s))
      else None)"

text \<open>
  A sequence of toggle calls by one user on one target. A post can be toggled through
  either route, a comment through \<^verbatim>\<open>POST /reactions\<close> only.
\<close>

datatype route = PostRoute | GenericRoute

fun toggleReaction ::
  "route \<Rightarrow> env \<Rightarrow> string \<Rightarrow> string \<Rightarrow> string \<Rightarrow> string option \<Rightarrow> db \<Rightarrow> db \<times> body response" where
  "toggleReaction PostRoute e u targetType targetId type s = react_to_post e (Some u) targetId type s"
| "toggleReaction GenericRoute e u targetType targetId type s =
     add_reaction e (Some u) targetType targetId type s"

fun toggle_calls ::
  "(route \<times> env \<times> string option) list \<Rightarrow> string \<Rightarrow> string \<Rightarrow> string \<Rightarrow> db \<Rightarrow> db" where
  "toggle_calls [] u targetType targetId s = s"
| "toggle_calls ((r, e, type) # cs) u targetType targetId s =
     toggle_calls cs u targetType targetId (fst (toggleReaction r e u targetType targetId type s))"

definition route_fits :: "string \<Rightarrow> route \<times> env \<times> string option \<Rightarrow> bool" where
  "route_fits targetType c = (targetType = ''post'' \<or> fst c = GenericRoute)"

section \<open>Comment, post and group routes that notify\<close>

text \<open>
  \<^verbatim>\<open>String.prototype.trim\<close> on the code units the model has: tab, line feed, vertical
  tab, form feed, carriage return, space and no-break space.
\<close>

definition is_space :: "char \<Rightarrow> bool" where
  "is_space c =
     (c \<in> set [CHR 0x09, CHR 0x0A, CHR 0x0B, CHR 0x0C, CHR 0x0D, CHR 0x20, CHR 0xA0])"

definition trim :: "string \<Rightarrow> string" where
  "trim t = rev (dropWhile is_space (rev (dropWhile is_space t)))"

definition truthy :: "string option \<Rightarrow> bool" where
  "truthy v = (case v of None \<Rightarrow> False | Some t \<Rightarrow> t \<noteq> [])"

definition or_null :: "string option \<Rightarrow> string option" where
  "or_null v = (if truthy v then v else None)"

text \<open>The notification block of \<^verbatim>\<open>POST /posts/:id/comments\<close>.\<close>

definition reply_notification_block ::
  "env \<Rightarrow> string \<Rightarrow> string \<Rightarrow> string \<Rightarrow> string \<Rightarrow> db \<Rightarrow> error + db" where
  "reply_notification_block e u postId commentId content s =
     (case post_findUnique e postId s of
        Inl err \<Rightarrow> Inl err
      | Inr None \<Rightarrow> Inr s
      | Inr (Some p) \<Rightarrow>
          if post_authorId p \<noteq> u
          then sendReplyNotification e (post_authorId p) u postId commentId content s
          else Inr s)"

definition post_comments_add :: "int \<Rightarrow> post \<Rightarrow> post" where
  "post_comments_add d p = p\<lparr>post_commentCount := post_commentCount p + d\<rparr>"

definition parent_invalid :: "string option \<Rightarrow> string \<Rightarrow> db \<Rightarrow> bool" where
  "parent_invalid parentId postId s =
     (case or_null parentId of
        None \<Rightarrow> False
      | Some parent \<Rightarrow>
          (case find (\<lambda>c. c_id c = parent) (comments s) of
             None \<Rightarrow> True
           | Some parentComment \<Rightarrow> c_postId parentComment \<noteq> postId))"

text \<open>
  \<^verbatim>\<open>POST /posts/:id/comments\<close>. A missing \<^verbatim>\<open>content\<close> is the empty string here: both
  are refused by the first check.
\<close>

definition create_post_comment ::
  "env \<Rightarrow> string option \<Rightarrow> string \<Rightarrow> string \<Rightarrow> string option \<Rightarrow> db \<Rightarrow> db \<times> body response" where
  "create_post_comment e userId postId content parentId s =
     (if trim content = [] then (s, Respond 400 (ErrorBody ''Content is required''))
      else (case userId of
        None \<Rightarrow> (s, Respond 401 (ErrorBody ''Authentication required''))
      | Some u \<Rightarrow>
          if u = [] then (s, Respond 401 (ErrorBody ''Authentication required''))
          else (case find (\<lambda>p. post_id p = postId) (posts s) of
            None \<Rightarrow> (s, Respond 404 (ErrorBody ''Post not found''))
          | Some _ \<Rightarrow>
              if parent_invalid parentId postId s
              then (s, Respond 400 (ErrorBody ''Invalid parent comment''))
              else
                (let newComment = \<lparr> c_id = row_id e, c_postId = postId, c_authorId = u,
                                     c_content = trim content, c_parentId = or_null parentId,
                                     c_reactionCount = 0 \<rparr>;
                     s1 = s\<lparr>comments := comments s @ [newComment]\<rparr>
                 in case post_update postId (post_comments_add 1) s1 of
                      Inl err \<Rightarrow> (s1, Forward err)
                    | Inr s2 \<Rightarrow>
                        (swallow ''Error sending reply notification:'' s2
                           (reply_notification_block e u postId (row_id e) (trim content) s2),
                         Respond 201 (CommentBody newComment ''Kommentar erfolgreich erstellt!''))))))"

text \<open>
  \<^verbatim>\<open>POST /posts\<close>. The request body as \<^verbatim>\<open>createPostSchema\<close> reads it, without the media
  and preview attachments, which the route stores and does not inspect. A new post has both
  counters 0 and the creation time of the request.
\<close>

record post_input =
  in_title :: "string option"
  in_content :: string
  in_groupId :: "string option"
  in_scheduledFor :: "nat option"

definition createPostSchema :: "post_input \<Rightarrow> bool" where
  "createPostSchema inp =
     (1 \<le> length (in_content inp) \<and> length (in_content inp) \<le> 10000
      \<and> (case in_title inp of None \<Rightarrow> True | Some t \<Rightarrow> length t \<le> 200))"

definition active_member :: "string \<Rightarrow> string \<Rightarrow> db \<Rightarrow> bool" where
  "active_member groupId u s =
     (case find (\<lambda>m. gm_groupId m = groupId \<and> gm_userId m = u) (members s) of
        None \<Rightarrow> False
      | Some membership \<Rightarrow> gm_status membership = ''active'')"

definition group_post_notification_block ::
  "env \<Rightarrow> string \<Rightarrow> string \<Rightarrow> string \<Rightarrow> db \<Rightarrow> error + db" where
  "group_post_notification_block e u groupId postId s =
     (if members_lookup_fails e then Inl StorageFailure
      else
        (let groupMembers = filter (\<lambda>m. gm_groupId m = groupId \<and> gm_status m = ''active''
                                         \<and> gm_userId m \<noteq> u) (members s)
         in if length groupMembers > 0
            then createBulkNotifications e (map gm_userId groupMembers)
                   \<lparr> pl_type = POST_CREATED,
                     pl_title = ''Neuer Post in der Gruppe'',
                     pl_message = ''Ein neuer Post wurde in der Gruppe erstellt'',
                     pl_data = PostCreatedData postId groupId u,
                     pl_actionUrl = Some (''/posts/'' @ postId) \<rparr> s
            else Inr s))"

definition create_post ::
  "env \<Rightarrow> string option \<Rightarrow> post_input \<Rightarrow> db \<Rightarrow> db \<times> body response" where
  "create_post e userId inp s =
     (case userId of
        None \<Rightarrow> (s, Respond 401 (ErrorBody ''Authentication required''))
      | Some u \<Rightarrow>
          if u = [] then (s, Respond 401 (ErrorBody ''Authentication required''))
          else if \<not> createPostSchema inp then (s, Forward ValidationError)
          else if trim (in_content inp) = [] then (s, Respond 400 (ErrorBody ''Content is required''))
          else if (case or_null (in_groupId inp) of
                     None \<Rightarrow> False | Some g \<Rightarrow> \<not> active_member g u s)
          then (s, Respond 403 (ErrorBody ''Not a member of this group''))
          else
            (let newPost = \<lparr> post_id = row_id e,
                             post_title = or_null (map_option trim (in_title inp)),
                             post_content = trim (in_content inp),
                             post_authorId = u,
                             post_groupId = or_null (in_groupId inp),
                             post_status = (case in_scheduledFor inp of
                                              None \<Rightarrow> ''published'' | Some _ \<Rightarrow> ''scheduled''),
                             post_reactionCount = 0, post_commentCount = 0,
                             post_createdAt = now e \<rparr>;
                 s1 = s\<lparr>posts := posts s @ [newPost]\<rparr>;
                 s2 = (case or_null (in_groupId inp) of
                         None \<Rightarrow> s1
                       | Some g \<Rightarrow>
                           swallow ''Error sending group notifications:'' s1
                             (group_post_notification_block e u g (row_id e) s1))
             in (s2, Respond 201 (PostBody newPost ''Post erfolgreich erstellt!''))))"

text \<open>
  \<^verbatim>\<open>POST /groups/:slug/join\<close>. The created membership is read back with its user, so
  the insert rejects when the user row is missing.
\<close>

definition join_notification_block ::
  "env \<Rightarrow> string \<Rightarrow> user \<Rightarrow> community_group \<Rightarrow> group_member \<Rightarrow> db \<Rightarrow> error + db" where
  "join_notification_block e u usr g membership s =
     (if g_ownerId g \<noteq> u
      then createNotification e (g_ownerId g)
             \<lparr> pl_type = GROUP_JOIN_REQUEST,
               pl_title = ''Neues Gruppenmitglied'',
               pl_message = template_text (u_name usr) @ '' ist der Gruppe '' @ [CHR 0x22]
                  @ g_name g @ [CHR 0x22] @ '' beigetreten'',
               pl_data = JoinData (g_id g) u (gm_status membership),
               pl_actionUrl = Some (''/groups/'' @ g_slug g) \<rparr> s
      else Inr s)"

definition join_group :: "env \<Rightarrow> string option \<Rightarrow> string \<Rightarrow> db \<Rightarrow> db \<times> body response" where
  "join_group e userId slug s =
     (case userId of
        None \<Rightarrow> (s, Respond 401 (ErrorBody ''Authentication required''))
      | Some u \<Rightarrow>
          if u = [] then (s, Respond 401 (ErrorBody ''Authentication required''))
          else (case find (\<lambda>g. g_slug g = slug) (groups s) of
            None \<Rightarrow> (s, Respond 404 (ErrorBody ''Group not found''))
          | Some g \<Rightarrow>
              (case find (\<lambda>m. gm_groupId m = g_id g \<and> gm_userId m = u) (members s) of
                 Some existingMembership \<Rightarrow>
                   (s, Respond 400 (ErrorBody ''Already a member of this group''))
               | None \<Rightarrow>
                   (case users s u of
                      None \<Rightarrow> (s, Forward ForeignKeyViolation)
                    | Some usr \<Rightarrow>
                        (let membership = \<lparr> gm_groupId = g_id g, gm_userId = u,
                                             gm_role = ''member'',
                                             gm_status = (if g_visibility g = ''public''
                                                          then ''active'' else ''pending'') \<rparr>;
                             s1 = s\<lparr>members := members s @ [membership]\<rparr>
                         in (swallow ''Error sending group join notification:'' s1
                               (join_notification_block e u usr g membership s1),
                             Respond 201 (MembershipBody membership)))))))"

section \<open>Paged queries: the inbox and the feed\<close>

text \<open>
  \<^verbatim>\<open>findMany\<close> with \<^verbatim>\<open>skip\<close> and \<^verbatim>\<open>take\<close> on rows already filtered and ordered: a
  negative \<^verbatim>\<open>skip\<close> is refused, a negative \<^verbatim>\<open>take\<close> counts from the end of the list.
  Query values are the integers \<^verbatim>\<open>Number(...)\<close> gives; values that are not integers
  are not modelled.
\<close>

definition skip_take :: "int \<Rightarrow> int \<Rightarrow> 'a list \<Rightarrow> error + 'a list" where
  "skip_take skip n rows =
     (if skip < 0 then Inl QueryInvalid
      else if 0 \<le> n then Inr (take (nat n) (drop (nat skip) rows))
      else Inr (rev (take (nat (- n)) (drop (nat skip) (rev rows)))))"

text \<open>
  \<^verbatim>\<open>Math.ceil(total / limit)\<close> as the JSON body prints it: null when the quotient is not
  finite.
\<close>

definition pages :: "nat \<Rightarrow> int \<Rightarrow> int option" where
  "pages count limit = (if limit = 0 then None else Some (- ((- int count) div limit)))"

definition default_page :: "int option \<Rightarrow> int" where
  "default_page p = (case p of None \<Rightarrow> 1 | Some n \<Rightarrow> n)"

definition default_limit :: "int option \<Rightarrow> int" where
  "default_limit l = (case l of None \<Rightarrow> 20 | Some n \<Rightarrow> n)"

text \<open>
  \<^verbatim>\<open>orderBy: { createdAt: 'desc' }\<close>. The storage layer leaves the order of rows with
  equal keys open; the model keeps them in storage order.
\<close>

definition newest_first :: "notification list \<Rightarrow> notification list" where
  "newest_first rows = sort_key (\<lambda>n. - int (n_createdAt n)) rows"

definition transform :: "notification \<Rightarrow> notification_view" where
  "transform n =
     \<lparr> v_id = n_id n, v_type = n_type n, v_title = n_title n, v_message = n_message n,
       v_isRead = (n_readAt n \<noteq> None), v_createdAt = n_createdAt n,
       v_data = n_data n, v_actionUrl = n_actionUrl n \<rparr>"

definition inbox_where :: "string \<Rightarrow> string option \<Rightarrow> notification \<Rightarrow> bool" where
  "inbox_where u unreadOnly n =
     (n_userId n = u \<and> (if unreadOnly = Some ''true'' then n_readAt n = None else True))"

definition unread_of :: "string \<Rightarrow> notification \<Rightarrow> bool" where
  "unread_of u n = (n_userId n = u \<and> n_readAt n = None)"

text \<open>\<^verbatim>\<open>GET /notifications\<close>\<close>

definition list_notifications ::
  "string option \<Rightarrow> int option \<Rightarrow> int option \<Rightarrow> string option \<Rightarrow> db \<Rightarrow> body response" where
  "list_notifications userId page limit unreadOnly s =
     (case userId of
        None \<Rightarrow> Respond 401 (ErrorBody ''Authentication required'')
      | Some u \<Rightarrow>
          if u = [] then Respond 401 (ErrorBody ''Authentication required'')
          else
            (let skip = (default_page page - 1) * default_limit limit;
                 matching = filter (inbox_where u unreadOnly) (notifications s);
                 count = length matching;
                 unreadCount = length (filter (unread_of u) (notifications s))
             in case skip_take skip (default_limit limit) (newest_first matching) of
                  Inl err \<Rightarrow> Forward err
                | Inr rows \<Rightarrow>
                    Respond 200
                      (InboxBody (map transform rows) unreadCount
                         \<lparr> pg_page = default_page page, pg_limit = default_limit limit,
                           pg_total = count, pg_pages = pages count (default_limit limit),
                           pg_hasMore = None \<rparr>)))"

text \<open>
  \<^verbatim>\<open>GET /posts\<close>. The case-insensitive \<^verbatim>\<open>contains\<close> of the storage layer is a
  parameter. Ids are compared as the lists of their code units. Rows with equal sort keys
  stay in storage order; for \<^verbatim>\<open>trending\<close> the rows are ordered by creation time first
  and then, keeping that order among equals, by reaction count. The items are the stored
  rows; the per-row relation counts the route adds to them are left out.
\<close>

record feed_query =
  q_sort :: "string option"
  q_page :: "int option"
  q_limit :: "int option"
  q_cursor :: "string option"
  q_search :: "string option"
  q_groupId :: "string option"

definition search_hit :: "(string \<Rightarrow> string \<Rightarrow> bool) \<Rightarrow> string \<Rightarrow> db \<Rightarrow> post \<Rightarrow> bool" where
  "search_hit contains search s p =
     ((case post_title p of None \<Rightarrow> False | Some t \<Rightarrow> contains t search)
      \<or> contains (post_content p) search
      \<or> (case users s (post_authorId p) of
            None \<Rightarrow> False
          | Some author \<Rightarrow> (case u_name author of None \<Rightarrow> False | Some n \<Rightarrow> contains n search)))"

definition feed_where :: "(string \<Rightarrow> string \<Rightarrow> bool) \<Rightarrow> feed_query \<Rightarrow> db \<Rightarrow> post \<Rightarrow> bool" where
  "feed_where contains q s p =
     (post_status p = ''published''
      \<and> (case or_null (q_cursor q) of None \<Rightarrow> True | Some cursor \<Rightarrow> post_id p < cursor)
      \<and> (case or_null (q_groupId q) of None \<Rightarrow> True | Some g \<Rightarrow> post_groupId p = Some g)
      \<and> (case or_null (q_search q) of None \<Rightarrow> True | Some search \<Rightarrow> search_hit contains search s p))"

definition feed_order :: "string option \<Rightarrow> post list \<Rightarrow> post list" where
  "feed_order mode rows =
     (if mode = Some ''top'' then sort_key (\<lambda>p. - post_reactionCount p) rows
      else if mode = Some ''trending''
      then sort_key (\<lambda>p. - post_reactionCount p) (sort_key (\<lambda>p. - int (post_createdAt p)) rows)
      else sort_key (\<lambda>p. - int (post_createdAt p)) rows)"

definition feed_skip :: "feed_query \<Rightarrow> int" where
  "feed_skip q =
     (if truthy (q_cursor q) then 0
      else (default_page (q_page q) - 1) * default_limit (q_limit q))"

definition list_feed :: "(string \<Rightarrow> string \<Rightarrow> bool) \<Rightarrow> feed_query \<Rightarrow> db \<Rightarrow> body response" where
  "list_feed contains q s =
     (let skip = feed_skip q;
          limit = default_limit (q_limit q);
          matching = filter (feed_where contains q s) (posts s);
          count = length matching
      in case skip_take skip limit (feed_order (q_sort q) matching) of
           Inl err \<Rightarrow> Forward err
         | Inr rows \<Rightarrow>
             Respond 200
               (FeedBody rows
                  \<lparr> pg_page = default_page (q_page q), pg_limit = limit, pg_total = count,
                    pg_pages = pages count limit,
                    pg_hasMore = Some (skip + limit < int count) \<rparr>))"

section \<open>Reading the outcome of a call\<close>

text \<open>
  The notifications a service call added to the table, the tables a primary action works
  on (all but the notifications and the console), and a request environment with other
  outcomes for the storage calls of the notification path.
\<close>

definition created :: "db \<Rightarrow> error + db \<Rightarrow> notification list" where
  "created s r =
     (case r of Inl _ \<Rightarrow> [] | Inr s' \<Rightarrow> drop (length (notifications s)) (notifications s'))"

definition primary_tables :: "db \<Rightarrow> db" where
  "primary_tables s = s\<lparr>notifications := [], console := []\<rparr>"

definition with_faults :: "bool \<Rightarrow> bool \<Rightarrow> bool \<Rightarrow> bool \<Rightarrow> env \<Rightarrow> env" where
  "with_faults a b c d e =
     e\<lparr>notif_create_fails := a, user_lookup_fails := b, post_lookup_fails := c,
       members_lookup_fails := d\<rparr>"

definition feed_items :: "body response \<Rightarrow> post list" where
  "feed_items r = (case r of Respond _ (FeedBody rows _) \<Rightarrow> rows | _ \<Rightarrow> [])"

definition feed_pagination :: "body response \<Rightarrow> pagination option" where
  "feed_pagination r = (case r of Respond _ (FeedBody _ pg) \<Rightarrow> Some pg | _ \<Rightarrow> None)"

definition inbox_items :: "body response \<Rightarrow> notification_view list" where
  "inbox_items r = (case r of Respond _ (InboxBody rows _ _) \<Rightarrow> rows | _ \<Rightarrow> [])"

definition inbox_unreadCount :: "body response \<Rightarrow> nat option" where
  "inbox_unreadCount r = (case r of Respond _ (InboxBody _ n _) \<Rightarrow> Some n | _ \<Rightarrow> None)"

section \<open>A small community\<close>

text \<open>
  Concrete storage for checking the statements below on inputs: Alice has three unread and
  two read notifications, her post \<^verbatim>\<open>p1\<close> carries one reaction, by Carol, and Bob is
  subscribed to it.
\<close>

definition example_env :: env where
  "example_env =
     \<lparr> now = 5000, row_id = ''r9'', notif_id = (\<lambda>k. ''n9'' @ replicate k (CHR ''x'')),
       notif_create_fails = False, user_lookup_fails = False, post_lookup_fails = False,
       members_lookup_fails = False \<rparr>"

definition example_note :: "string \<Rightarrow> string \<Rightarrow> nat \<Rightarrow> nat option \<Rightarrow> notification" where
  "example_note i u t r =
     \<lparr> n_id = i, n_userId = u, n_type = SYSTEM_ANNOUNCEMENT, n_title = ''News'',
       n_message = ''Hello'', n_scheduledFor = t,
       n_status = (case r of None \<Rightarrow> Scheduled | Some _ \<Rightarrow> Delivered),
       n_data = JoinData [] [] [], n_actionUrl = None, n_createdAt = t, n_readAt = r \<rparr>"

definition example_post :: "string \<Rightarrow> string \<Rightarrow> int \<Rightarrow> nat \<Rightarrow> post" where
  "example_post i a c t =
     \<lparr> post_id = i, post_title = Some ''Hello'', post_content = ''First post'',
       post_authorId = a, post_groupId = Some ''g1'', post_status = ''published'',
       post_reactionCount = c, post_commentCount = 0, post_createdAt = t \<rparr>"

definition example_payload :: NotificationPayload where
  "example_payload =
     \<lparr> pl_type = SYSTEM_ANNOUNCEMENT, pl_title = ''News'', pl_message = ''Hello'',
       pl_data = JoinData [] [] [], pl_actionUrl = None \<rparr>"

definition example_db :: db where
  "example_db =
     \<lparr> notifications =
         [example_note ''n1'' ''alice'' 100 None, example_note ''n2'' ''alice'' 200 None,
          example_note ''n4'' ''alice'' 400 (Some 450), example_note ''n3'' ''alice'' 300 None,
          example_note ''n5'' ''alice'' 500 (Some 550), example_note ''n6'' ''bob'' 600 None],
       users = [''alice'' \<mapsto> \<lparr>u_name = Some ''Alice'', u_handle = Some ''alice''\<rparr>,
                ''bob'' \<mapsto> \<lparr>u_name = None, u_handle = Some ''bob''\<rparr>],
       posts = [example_post ''p1'' ''alice'' 1 10, example_post ''p2'' ''bob'' 0 20,
                example_post ''p3'' ''alice'' 0 30],
       comments = [\<lparr> c_id = ''c1'', c_postId = ''p1'', c_authorId = ''bob'',
                     c_content = ''Nice'', c_parentId = None, c_reactionCount = 0 \<rparr>],
       reactions = fmupd (''post'', ''p1'', ''carol'') \<lparr>r_id = ''r1'', r_type = ''like''\<rparr> fmempty,
       subscriptions = fmupd (''bob'', ''post'', ''p1'')
                         \<lparr>sub_inApp = True, sub_email = False, sub_push = False\<rparr> fmempty,
       groups = [\<lparr> g_id = ''g1'', g_slug = ''general'', g_name = ''General'',
                   g_ownerId = ''alice'', g_visibility = ''public'' \<rparr>],
       members = [\<lparr> gm_groupId = ''g1'', gm_userId = ''alice'', gm_role = ''owner'',
                    gm_status = ''active'' \<rparr>,
                  \<lparr> gm_groupId = ''g1'', gm_userId = ''carol'', gm_role = ''member'',
                    gm_status = ''active'' \<rparr>],
       console = [] \<rparr>"

definition keyset_query :: feed_query where
  "keyset_query =
     \<lparr> q_sort = None, q_page = Some 7, q_limit = Some 1, q_cursor = Some ''p3'',
       q_search = None, q_groupId = None \<rparr>"

definition offset_query :: feed_query where
  "offset_query =
     \<lparr> q_sort = None, q_page = Some 2, q_limit = Some 1, q_cursor = None,
       q_search = None, q_groupId = None \<rparr>"

section \<open>Properties\<close>

subsection \<open>Marking one notification read\<close>

lemma find_map_mark:
  "find (\<lambda>n. n_id n = i) (map (\<lambda>m. if n_id m = i then mark_as_read e m else m) ns)
     = map_option (mark_as_read e) (find (\<lambda>n. n_id n = i) ns)"
  by (induction ns) (auto simp: mark_as_read_def)

text \<open>
  C4. Marking a notification read answers 404 and changes nothing when no notification has
  the id, answers 403 and changes nothing when the notification belongs to another user,
  and otherwise answers 200 and leaves the notification with \<^verbatim>\<open>readAt\<close> the current
  time and status delivered.
\<close>

theorem markRead_outcomes:
  assumes "u \<noteq> []"
  shows "(find (\<lambda>n. n_id n = i) (notifications s) = None \<longrightarrow>
            markRead e (Some u) i s = (s, Respond 404 (ErrorBody ''Notification not found'')))
       \<and> (\<forall>n. find (\<lambda>n. n_id n = i) (notifications s) = Some n \<and> n_userId n \<noteq> u \<longrightarrow>
            markRead e (Some u) i s = (s, Respond 403 (ErrorBody ''Not authorized'')))
       \<and> (\<forall>n. find (\<lambda>n. n_id n = i) (notifications s) = Some n \<and> n_userId n = u \<longrightarrow>
            (\<exists>n'. snd (markRead e (Some u) i s) = Respond 200 (NotificationBody n')
                \<and> find (\<lambda>n. n_id n = i) (notifications (fst (markRead e (Some u) i s))) = Some n'
                \<and> n_readAt n' = Some (now e) \<and> n_status n' = Delivered
                \<and> n' = n\<lparr>n_readAt := Some (now e), n_status := Delivered\<rparr>))"
  using assms
  by (auto simp: markRead_def authenticated_def find_map_mark mark_as_read_def)

theorem markRead_outcomes_witness:
  "markRead example_env (Some ''alice'') ''zz'' example_db
      = (example_db, Respond 404 (ErrorBody ''Notification not found''))
   \<and> markRead example_env (Some ''bob'') ''n1'' example_db
      = (example_db, Respond 403 (ErrorBody ''Not authorized''))
   \<and> snd (markRead example_env (Some ''alice'') ''n1'' example_db)
      = Respond 200 (NotificationBody
          ((example_note ''n1'' ''alice'' 100 None)\<lparr>n_readAt := Some 5000, n_status := Delivered\<rparr>))
   \<and> find (\<lambda>n. n_id n = ''n1'')
         (notifications (fst (markRead example_env (Some ''alice'') ''n1'' example_db)))
      = Some ((example_note ''n1'' ''alice'' 100 None)\<lparr>n_readAt := Some 5000, n_status := Delivered\<rparr>)"
  using markRead_outcomes [of "''alice''" "''zz''" example_db example_env]
        markRead_outcomes [of "''bob''" "''n1''" example_db example_env]
        markRead_outcomes [of "''alice''" "''n1''" example_db example_env]
  by (simp add: example_db_def example_note_def example_env_def)

subsection \<open>The reaction ledger and its counters\<close>

lemma ffilter_finsert:
  "ffilter P (finsert x A) = (if P x then finsert x (ffilter P A) else ffilter P A)"
  by auto

lemma ffilter_fempty: "ffilter P {||} = {||}"
  by auto

lemma ffilter_fminus_single:
  "ffilter P (A |-| {|x|}) = ffilter P A |-| {|x|}"
  by auto

lemma live_rows_insert:
  "(t, i, u) |\<notin>| fmdom (reactions s) \<Longrightarrow>
   live_rows (s\<lparr>reactions := fmupd (t, i, u) r (reactions s)\<rparr>) t i = Suc (live_rows s t i)"
  by (simp add: live_rows_def ffilter_finsert on_target_def fcard_finsert_disjoint)

lemma live_rows_drop:
  assumes "(t, i, u) |\<in>| fmdom (reactions s)"
  shows "int (live_rows (s\<lparr>reactions := fmdrop (t, i, u) (reactions s)\<rparr>) t i)
           = int (live_rows s t i) - 1"
proof -
  let ?A = "ffilter (on_target t i) (fmdom (reactions s))"
  have mem: "(t, i, u) |\<in>| ?A"
    using assms by (simp add: on_target_def)
  have "Suc (fcard (?A |-| {|(t, i, u)|})) = fcard ?A"
    by (rule fcard_Suc_fminus1 [OF mem])
  then have "int (fcard (?A |-| {|(t, i, u)|})) = int (fcard ?A) - 1"
    by linarith
  then show ?thesis
    by (simp add: live_rows_def ffilter_fminus_single)
qed

lemma find_map_update:
  "(\<And>p. key (f p) = key p) \<Longrightarrow>
   find (\<lambda>p. key p = i) (map (\<lambda>p. if key p = i then f p else p) ps)
     = map_option f (find (\<lambda>p. key p = i) ps)"
  by (induction ps) auto

lemma reactionCount_counter_update:
  assumes "reactionCount s t i = Some c"
  shows "\<exists>s'. counter_update t i d s = Inr s' \<and> reactionCount s' t i = Some (c + d)
           \<and> reactions s' = reactions s"
proof -
  from assms consider "t = ''post''" | "t = ''comment''" "t \<noteq> ''post''"
    by (auto simp: reactionCount_def split: if_splits)
  then show ?thesis
  proof cases
    case 1
    then obtain p where p: "find (\<lambda>p. post_id p = i) (posts s) = Some p" "post_reactionCount p = c"
      using assms by (auto simp: reactionCount_def)
    have "find (\<lambda>p. post_id p = i) (map (\<lambda>p. if post_id p = i then post_reactions_add d p else p) (posts s))
         = map_option (post_reactions_add d) (find (\<lambda>p. post_id p = i) (posts s))"
      by (rule find_map_update) (simp add: post_reactions_add_def)
    with 1 p show ?thesis
      by (simp add: counter_update_def post_update_def reactionCount_def post_reactions_add_def)
  next
    case 2
    then obtain p where p: "find (\<lambda>p. c_id p = i) (comments s) = Some p" "c_reactionCount p = c"
      using assms by (auto simp: reactionCount_def)
    have "find (\<lambda>p. c_id p = i) (map (\<lambda>p. if c_id p = i then comment_reactions_add d p else p) (comments s))
         = map_option (comment_reactions_add d) (find (\<lambda>p. c_id p = i) (comments s))"
      by (rule find_map_update) (simp add: comment_reactions_add_def)
    with 2 p show ?thesis
      by (simp add: counter_update_def comment_update_def reactionCount_def comment_reactions_add_def)
  qed
qed


lemma notification_block_tables:
  "reaction_notification_block e u i k s = Inr s' \<Longrightarrow>
     reactions s' = reactions s \<and> posts s' = posts s \<and> comments s' = comments s"
  by (auto simp: reaction_notification_block_def sendReactionNotification_def
        createNotification_def notification_createMany_def post_findUnique_def
        user_findUnique_def split: sum.splits option.splits if_splits)

lemma swallow_block_tables:
  "reactions (swallow msg s (reaction_notification_block e u i k s)) = reactions s
   \<and> posts (swallow msg s (reaction_notification_block e u i k s)) = posts s
   \<and> comments (swallow msg s (reaction_notification_block e u i k s)) = comments s"
  by (cases "reaction_notification_block e u i k s")
     (auto simp: swallow_def dest: notification_block_tables)

lemma reactionCount_cong:
  "posts s' = posts s \<Longrightarrow> comments s' = comments s \<Longrightarrow> reactionCount s' t i = reactionCount s t i"
  by (simp add: reactionCount_def)

lemma live_rows_cong:
  "reactions s' = reactions s \<Longrightarrow> live_rows s' t i = live_rows s t i"
  by (simp add: live_rows_def)

lemma has_reaction_cong:
  "reactions s' = reactions s \<Longrightarrow> has_reaction s' t i u = has_reaction s t i u"
  by (simp add: has_reaction_def)

lemma add_reaction_step:
  assumes "u \<noteq> []" and inv: "reactionCount s t i = Some (int (live_rows s t i))"
  shows "reactionCount (fst (add_reaction e (Some u) t i k s)) t i
           = Some (int (live_rows (fst (add_reaction e (Some u) t i k s)) t i))
       \<and> has_reaction (fst (add_reaction e (Some u) t i k s)) t i u = (\<not> has_reaction s t i u)"
proof (cases "fmlookup (reactions s) (t, i, u)")
  case None
  let ?r = "\<lparr>r_id = row_id e, r_type = default_type k\<rparr>"
  let ?s1 = "s\<lparr>reactions := fmupd (t, i, u) ?r (reactions s)\<rparr>"
  have notin: "(t, i, u) |\<notin>| fmdom (reactions s)"
    using None by (simp add: fmdom_notI)
  have c1: "reactionCount ?s1 t i = Some (int (live_rows s t i))"
    using inv reactionCount_cong [of ?s1 s t i] by simp
  obtain s2 where s2: "counter_update t i 1 ?s1 = Inr s2"
      "reactionCount s2 t i = Some (int (live_rows s t i) + 1)" "reactions s2 = reactions ?s1"
    using reactionCount_counter_update [OF c1, of 1] by blast
  have res: "fst (add_reaction e (Some u) t i k s) = s2"
    using assms(1) None s2(1) by (simp add: add_reaction_def)
  have "live_rows s2 t i = Suc (live_rows s t i)"
    using live_rows_insert [OF notin, of ?r] s2(3) by (simp add: live_rows_def)
  moreover have "has_reaction s2 t i u" using s2(3) by (simp add: has_reaction_def)
  moreover have "\<not> has_reaction s t i u" using notin by (simp add: has_reaction_def)
  ultimately show ?thesis using res s2(2) by simp
next
  case (Some existing)
  let ?s1 = "s\<lparr>reactions := fmdrop (t, i, u) (reactions s)\<rparr>"
  have isin: "(t, i, u) |\<in>| fmdom (reactions s)"
    using Some by (simp add: fmlookup_dom_iff)
  have c1: "reactionCount ?s1 t i = Some (int (live_rows s t i))"
    using inv reactionCount_cong [of ?s1 s t i] by simp
  obtain s2 where s2: "counter_update t i (- 1) ?s1 = Inr s2"
      "reactionCount s2 t i = Some (int (live_rows s t i) + (- 1))" "reactions s2 = reactions ?s1"
    using reactionCount_counter_update [OF c1, of "- 1"] by blast
  have res: "fst (add_reaction e (Some u) t i k s) = s2"
    using assms(1) Some s2(1) by (simp add: add_reaction_def)
  have "int (live_rows s2 t i) = int (live_rows s t i) - 1"
    using live_rows_drop [OF isin] s2(3) by (simp add: live_rows_def)
  moreover have "\<not> has_reaction s2 t i u" using s2(3) by (simp add: has_reaction_def)
  moreover have "has_reaction s t i u" using isin by (simp add: has_reaction_def)
  ultimately show ?thesis using res s2(2) by simp
qed


lemma react_to_post_step:
  assumes "u \<noteq> []" and inv: "reactionCount s ''post'' i = Some (int (live_rows s ''post'' i))"
  shows "reactionCount (fst (react_to_post e (Some u) i k s)) ''post'' i
           = Some (int (live_rows (fst (react_to_post e (Some u) i k s)) ''post'' i))
       \<and> has_reaction (fst (react_to_post e (Some u) i k s)) ''post'' i u
           = (\<not> has_reaction s ''post'' i u)"
proof -
  obtain p where p: "find (\<lambda>p. post_id p = i) (posts s) = Some p"
    using inv by (auto simp: reactionCount_def)
  have upd: "post_update i (post_reactions_add d) s' = counter_update ''post'' i d s'" for d s'
    by (simp add: counter_update_def)
  show ?thesis
  proof (cases "fmlookup (reactions s) (''post'', i, u)")
    case None
    let ?r = "\<lparr>r_id = row_id e, r_type = default_type k\<rparr>"
    let ?s1 = "s\<lparr>reactions := fmupd (''post'', i, u) ?r (reactions s)\<rparr>"
    have notin: "(''post'', i, u) |\<notin>| fmdom (reactions s)"
      using None by (simp add: fmdom_notI)
    have c1: "reactionCount ?s1 ''post'' i = Some (int (live_rows s ''post'' i))"
      using inv reactionCount_cong [of ?s1 s "''post''" i] by simp
    obtain s2 where s2: "counter_update ''post'' i 1 ?s1 = Inr s2"
        "reactionCount s2 ''post'' i = Some (int (live_rows s ''post'' i) + 1)"
        "reactions s2 = reactions ?s1"
      using reactionCount_counter_update [OF c1, of 1] by blast
    let ?s3 = "swallow ''Error sending reaction notification:'' s2
                 (reaction_notification_block e u i (default_type k) s2)"
    have res: "fst (react_to_post e (Some u) i k s) = ?s3"
      using assms(1) None p s2(1) by (simp add: react_to_post_def upd)
    have tabs: "reactions ?s3 = reactions s2" "posts ?s3 = posts s2" "comments ?s3 = comments s2"
      using swallow_block_tables by blast+
    have "live_rows s2 ''post'' i = Suc (live_rows s ''post'' i)"
      using live_rows_insert [OF notin, of ?r] s2(3) by (simp add: live_rows_def)
    then have "reactionCount ?s3 ''post'' i = Some (int (live_rows ?s3 ''post'' i))"
      using s2(2) tabs reactionCount_cong [of ?s3 s2] live_rows_cong [of ?s3 s2] by simp
    moreover have "has_reaction ?s3 ''post'' i u"
      using s2(3) tabs(1) by (simp add: has_reaction_def)
    moreover have "\<not> has_reaction s ''post'' i u" using notin by (simp add: has_reaction_def)
    ultimately show ?thesis using res by simp
  next
    case (Some existing)
    let ?s1 = "s\<lparr>reactions := fmdrop (''post'', i, u) (reactions s)\<rparr>"
    have isin: "(''post'', i, u) |\<in>| fmdom (reactions s)"
      using Some by (simp add: fmlookup_dom_iff)
    have c1: "reactionCount ?s1 ''post'' i = Some (int (live_rows s ''post'' i))"
      using inv reactionCount_cong [of ?s1 s "''post''" i] by simp
    obtain s2 where s2: "counter_update ''post'' i (- 1) ?s1 = Inr s2"
        "reactionCount s2 ''post'' i = Some (int (live_rows s ''post'' i) + (- 1))"
        "reactions s2 = reactions ?s1"
      using reactionCount_counter_update [OF c1, of "- 1"] by blast
    have res: "fst (react_to_post e (Some u) i k s) = s2"
      using assms(1) Some p s2(1) by (simp add: react_to_post_def upd)
    have "int (live_rows s2 ''post'' i) = int (live_rows s ''post'' i) - 1"
      using live_rows_drop [OF isin] s2(3) by (simp add: live_rows_def)
    moreover have "\<not> has_reaction s2 ''post'' i u" using s2(3) by (simp add: has_reaction_def)
    moreover have "has_reaction s ''post'' i u" using isin by (simp add: has_reaction_def)
    ultimately show ?thesis using res s2(2) by simp
  qed
qed

lemma toggleReaction_step:
  assumes "u \<noteq> []" and "route_fits t (r, e, k)"
    and "reactionCount s t i = Some (int (live_rows s t i))"
  shows "reactionCount (fst (toggleReaction r e u t i k s)) t i
           = Some (int (live_rows (fst (toggleReaction r e u t i k s)) t i))
       \<and> has_reaction (fst (toggleReaction r e u t i k s)) t i u = (\<not> has_reaction s t i u)"
proof (cases r)
  case PostRoute
  then have "t = ''post''" using assms(2) by (simp add: route_fits_def)
  then show ?thesis using PostRoute react_to_post_step [OF assms(1), of s i e k] assms(3) by simp
next
  case GenericRoute
  then show ?thesis using add_reaction_step [OF assms(1) assms(3)] by simp
qed

lemma toggle_calls_general:
  assumes "u \<noteq> []"
  shows "list_all (route_fits t) cs \<Longrightarrow> reactionCount s t i = Some (int (live_rows s t i)) \<Longrightarrow>
     reactionCount (toggle_calls cs u t i s) t i = Some (int (live_rows (toggle_calls cs u t i s) t i))
     \<and> has_reaction (toggle_calls cs u t i s) t i u = (has_reaction s t i u \<noteq> odd (length cs))"
proof (induction cs arbitrary: s)
  case Nil
  then show ?case by simp
next
  case (Cons c cs)
  obtain r e k where c: "c = (r, e, k)" by (cases c) auto
  let ?s1 = "fst (toggleReaction r e u t i k s)"
  have fits: "route_fits t (r, e, k)" "list_all (route_fits t) cs"
    using Cons.prems(1) c by auto
  have step: "reactionCount ?s1 t i = Some (int (live_rows ?s1 t i))"
      "has_reaction ?s1 t i u = (\<not> has_reaction s t i u)"
    using toggleReaction_step [OF assms fits(1) Cons.prems(2)] by auto
  show ?case
    using Cons.IH [OF fits(2) step(1)] step(2) c by auto
qed

text \<open>
  C1. Take a target whose stored \<^verbatim>\<open>reactionCount\<close> equals the number of its live ledger
  rows (so the target is an existing post or comment), and a user with no reaction on it.
  After any finite sequence of toggle calls by that user on that target, through either
  route for a post and through \<^verbatim>\<open>POST /reactions\<close> for a comment, the ledger holds a row
  for the user and the target exactly when the number of calls is odd, and the target's
  \<^verbatim>\<open>reactionCount\<close> again equals the number of its live rows over all users.
\<close>

theorem toggle_ledger_and_counter:
  assumes "u \<noteq> []"
    and "list_all (route_fits targetType) calls"
    and "\<not> has_reaction s targetType targetId u"
    and "reactionCount s targetType targetId = Some (int (live_rows s targetType targetId))"
  shows "has_reaction (toggle_calls calls u targetType targetId s) targetType targetId u
           = odd (length calls)
       \<and> reactionCount (toggle_calls calls u targetType targetId s) targetType targetId
           = Some (int (live_rows (toggle_calls calls u targetType targetId s) targetType targetId))"
  using toggle_calls_general [OF assms(1) assms(2) assms(4)] assms(3) by simp


lemma example_counter_matches:
  "reactionCount example_db ''post'' ''p1'' = Some (int (live_rows example_db ''post'' ''p1''))"
  by (simp add: example_db_def reactionCount_def live_rows_def example_post_def on_target_def
        ffilter_finsert ffilter_fempty fcard_finsert_if fcard_fempty)

lemma example_bob_has_no_reaction: "\<not> has_reaction example_db ''post'' ''p1'' ''bob''"
  by (simp add: example_db_def has_reaction_def)

theorem toggle_ledger_and_counter_witness:
  "has_reaction (toggle_calls [(PostRoute, example_env, None), (GenericRoute, example_env, Some ''love''),
        (PostRoute, example_env, None)] ''bob'' ''post'' ''p1'' example_db) ''post'' ''p1'' ''bob''
   \<and> reactionCount (toggle_calls [(PostRoute, example_env, None), (GenericRoute, example_env, Some ''love''),
        (PostRoute, example_env, None)] ''bob'' ''post'' ''p1'' example_db) ''post'' ''p1''
       = Some (int (live_rows (toggle_calls [(PostRoute, example_env, None),
            (GenericRoute, example_env, Some ''love''), (PostRoute, example_env, None)]
            ''bob'' ''post'' ''p1'' example_db) ''post'' ''p1''))"
  using toggle_ledger_and_counter [of "''bob''" "''post''"
      "[(PostRoute, example_env, None), (GenericRoute, example_env, Some ''love''),
        (PostRoute, example_env, None)]" example_db "''p1''"] example_counter_matches example_bob_has_no_reaction
  by (simp add: route_fits_def)

subsection \<open>Unsubscribing and marking everything read\<close>

text \<open>
  C5. Unsubscribing fails with the storage layer's record-not-found error, which the error
  handler answers with 404, and changes nothing when no subscription row has the key
  (userId, targetType, targetId). When a row has the key, the call answers 200 and removes
  exactly that row.
\<close>

theorem unsubscribe_outcomes:
  assumes "u \<noteq> []"
  shows "(fmlookup (subscriptions s) (u, targetType, targetId) = None \<longrightarrow>
            unsubscribe (Some u) targetType targetId s = (s, Forward RecordNotFound)
            \<and> http_status (snd (unsubscribe (Some u) targetType targetId s)) = 404)
       \<and> (fmlookup (subscriptions s) (u, targetType, targetId) \<noteq> None \<longrightarrow>
            unsubscribe (Some u) targetType targetId s
              = (s\<lparr>subscriptions := fmdrop (u, targetType, targetId) (subscriptions s)\<rparr>,
                 Respond 200 (MessageBody ''Unsubscribed successfully''))
            \<and> fmlookup (subscriptions (fst (unsubscribe (Some u) targetType targetId s)))
                 (u, targetType, targetId) = None
            \<and> (\<forall>k. k \<noteq> (u, targetType, targetId) \<longrightarrow>
                 fmlookup (subscriptions (fst (unsubscribe (Some u) targetType targetId s))) k
                   = fmlookup (subscriptions s) k))"
  using assms
  by (auto simp: unsubscribe_def subscription_delete_def http_status_def error_status_def)

theorem unsubscribe_outcomes_witness:
  "unsubscribe (Some ''bob'') ''post'' ''p2'' example_db = (example_db, Forward RecordNotFound)
   \<and> http_status (snd (unsubscribe (Some ''bob'') ''post'' ''p2'' example_db)) = 404
   \<and> snd (unsubscribe (Some ''bob'') ''post'' ''p1'' example_db)
       = Respond 200 (MessageBody ''Unsubscribed successfully'')
   \<and> fmlookup (subscriptions (fst (unsubscribe (Some ''bob'') ''post'' ''p1'' example_db)))
        (''bob'', ''post'', ''p1'') = None"
proof -
  have absent: "fmlookup (subscriptions example_db) (''bob'', ''post'', ''p2'') = None"
    by (simp add: example_db_def)
  have present: "fmlookup (subscriptions example_db) (''bob'', ''post'', ''p1'') \<noteq> None"
    by (simp add: example_db_def)
  show ?thesis
    using unsubscribe_outcomes [of "''bob''" example_db "''post''" "''p2''"]
          unsubscribe_outcomes [of "''bob''" example_db "''post''" "''p1''"] absent present
    by (simp add: http_status_def error_status_def)
qed

lemma mark_all_twice:
  "map (\<lambda>n. if Some (n_userId n) = userId \<and> n_readAt n = None then mark_as_read e2 n else n)
     (map (\<lambda>n. if Some (n_userId n) = userId \<and> n_readAt n = None then mark_as_read e1 n else n) ns)
   = map (\<lambda>n. if Some (n_userId n) = userId \<and> n_readAt n = None then mark_as_read e1 n else n) ns"
  by (induction ns) (auto simp: mark_as_read_def)

lemma mark_all_no_unread:
  "filter (unread_of u)
     (map (\<lambda>n. if Some (n_userId n) = Some u \<and> n_readAt n = None then mark_as_read e n else n) ns) = []"
  by (induction ns) (auto simp: mark_as_read_def unread_of_def)

lemma markAllRead_notifications:
  "notifications (fst (markAllRead e userId s))
     = (if authenticated userId
        then map (\<lambda>n. if Some (n_userId n) = userId \<and> n_readAt n = None
                       then mark_as_read e n else n) (notifications s)
        else notifications s)"
  by (simp add: markAllRead_def)

lemma markAllRead_state:
  "fst (markAllRead e userId s) = s\<lparr>notifications := notifications (fst (markAllRead e userId s))\<rparr>"
  by (simp add: markAllRead_def)

text \<open>
  C8. Marking everything read twice gives the storage that marking once gives, whatever the
  clock shows at the second call: after the first call an authenticated user has no unread
  notification left for the second to match.
\<close>

theorem markAllRead_idempotent:
  "fst (markAllRead e2 userId (fst (markAllRead e1 userId s))) = fst (markAllRead e1 userId s)
   \<and> (u \<noteq> [] \<longrightarrow>
        filter (unread_of u) (notifications (fst (markAllRead e1 (Some u) s))) = [])"
proof (intro conjI impI)
  let ?s1 = "fst (markAllRead e1 userId s)"
  have "notifications (fst (markAllRead e2 userId ?s1)) = notifications ?s1"
    unfolding markAllRead_notifications [of e2] unfolding markAllRead_notifications [of e1]
    using mark_all_twice [of userId e2 e1 "notifications s"] by (simp del: map_map)
  then show "fst (markAllRead e2 userId ?s1) = ?s1"
    using markAllRead_state [of e2 userId ?s1] by simp
next
  assume "u \<noteq> []"
  then show "filter (unread_of u) (notifications (fst (markAllRead e1 (Some u) s))) = []"
    unfolding markAllRead_notifications
    using mark_all_no_unread [of u e1 "notifications s"] by (simp add: authenticated_def)
qed

theorem markAllRead_idempotent_witness:
  "fst (markAllRead (example_env\<lparr>now := 7000\<rparr>) (Some ''alice'')
          (fst (markAllRead example_env (Some ''alice'') example_db)))
     = fst (markAllRead example_env (Some ''alice'') example_db)
   \<and> filter (unread_of ''alice'')
        (notifications (fst (markAllRead example_env (Some ''alice'') example_db))) = []
   \<and> map n_readAt (notifications (fst (markAllRead example_env (Some ''alice'') example_db)))
     = [Some 5000, Some 5000, Some 450, Some 5000, Some 550, None]"
  using markAllRead_idempotent [of "example_env\<lparr>now := 7000\<rparr>" "Some ''alice''" example_env
          example_db "''alice''"]
  by (simp add: markAllRead_def authenticated_def example_db_def example_note_def
        example_env_def mark_as_read_def)

subsection \<open>Reactions on other target types\<close>

text \<open>
  C10. On \<^verbatim>\<open>POST /reactions\<close> with a target type other than \<^verbatim>\<open>post\<close> and
  \<^verbatim>\<open>comment\<close>, the first call creates the ledger row under the given (targetType,
  targetId, userId) and answers 201 with action \<^verbatim>\<open>added\<close>, a call that finds the
  row deletes it and answers 200 with action \<^verbatim>\<open>removed\<close>, and neither touches the
  post or the comment table. A counter moves only for the types \<^verbatim>\<open>post\<close> and
  \<^verbatim>\<open>comment\<close>: there the stored \<^verbatim>\<open>reactionCount\<close> of an existing target goes up
  by one on adding and down by one on removing.
\<close>

theorem add_reaction_other_target_types:
  assumes "u \<noteq> []"
  shows "(targetType \<noteq> ''post'' \<and> targetType \<noteq> ''comment''
            \<and> fmlookup (reactions s) (targetType, targetId, u) = None \<longrightarrow>
          add_reaction e (Some u) targetType targetId type s
            = (s\<lparr>reactions := fmupd (targetType, targetId, u)
                                  \<lparr>r_id = row_id e, r_type = default_type type\<rparr> (reactions s)\<rparr>,
               Respond 201 (ReactionBody None ''added''
                              (Some \<lparr>r_id = row_id e, r_type = default_type type\<rparr>))))
       \<and> (targetType \<noteq> ''post'' \<and> targetType \<noteq> ''comment''
            \<and> fmlookup (reactions s) (targetType, targetId, u) \<noteq> None \<longrightarrow>
          add_reaction e (Some u) targetType targetId type s
            = (s\<lparr>reactions := fmdrop (targetType, targetId, u) (reactions s)\<rparr>,
               Respond 200 (ReactionBody None ''removed'' None)))
       \<and> (targetType \<noteq> ''post'' \<and> targetType \<noteq> ''comment'' \<longrightarrow>
            posts (fst (add_reaction e (Some u) targetType targetId type s)) = posts s
            \<and> comments (fst (add_reaction e (Some u) targetType targetId type s)) = comments s)
       \<and> (\<forall>c. reactionCount s targetType targetId = Some c \<longrightarrow>
            reactionCount (fst (add_reaction e (Some u) targetType targetId type s))
                targetType targetId
              = Some (if has_reaction s targetType targetId u then c - 1 else c + 1))"
proof (intro conjI impI allI)
  fix c assume c: "reactionCount s targetType targetId = Some c"
  let ?k = "(targetType, targetId, u)"
  show "reactionCount (fst (add_reaction e (Some u) targetType targetId type s)) targetType targetId
          = Some (if has_reaction s targetType targetId u then c - 1 else c + 1)"
  proof (cases "fmlookup (reactions s) ?k")
    case None
    let ?s1 = "s\<lparr>reactions := fmupd ?k \<lparr>r_id = row_id e, r_type = default_type type\<rparr> (reactions s)\<rparr>"
    have "reactionCount ?s1 targetType targetId = Some c"
      using c reactionCount_cong [of ?s1 s targetType targetId] by simp
    then obtain s2 where "counter_update targetType targetId 1 ?s1 = Inr s2"
        "reactionCount s2 targetType targetId = Some (c + 1)"
      using reactionCount_counter_update [of ?s1 targetType targetId c 1] by blast
    moreover have "\<not> has_reaction s targetType targetId u"
      using None by (simp add: has_reaction_def fmdom_notI)
    ultimately show ?thesis using assms None by (simp add: add_reaction_def)
  next
    case (Some row)
    let ?s1 = "s\<lparr>reactions := fmdrop ?k (reactions s)\<rparr>"
    have "reactionCount ?s1 targetType targetId = Some c"
      using c reactionCount_cong [of ?s1 s targetType targetId] by simp
    then obtain s2 where "counter_update targetType targetId (- 1) ?s1 = Inr s2"
        "reactionCount s2 targetType targetId = Some (c + (- 1))"
      using reactionCount_counter_update [of ?s1 targetType targetId c "- 1"] by blast
    moreover have "has_reaction s targetType targetId u"
      using Some by (simp add: has_reaction_def fmlookup_dom_iff)
    ultimately show ?thesis using assms Some by (simp add: add_reaction_def)
  qed
qed (use assms in \<open>auto simp: add_reaction_def counter_update_def Let_def split: option.splits\<close>)

theorem add_reaction_other_target_types_witness:
  "add_reaction example_env (Some ''bob'') ''group'' ''g1'' None example_db
     = (example_db\<lparr>reactions := fmupd (''group'', ''g1'', ''bob'')
                                   \<lparr>r_id = ''r9'', r_type = ''like''\<rparr> (reactions example_db)\<rparr>,
        Respond 201 (ReactionBody None ''added'' (Some \<lparr>r_id = ''r9'', r_type = ''like''\<rparr>)))
   \<and> snd (add_reaction example_env (Some ''bob'') ''group'' ''g1'' None
            (fst (add_reaction example_env (Some ''bob'') ''group'' ''g1'' None example_db)))
     = Respond 200 (ReactionBody None ''removed'' None)
   \<and> posts (fst (add_reaction example_env (Some ''bob'') ''group'' ''g1'' None example_db))
     = posts example_db
   \<and> reactionCount (fst (add_reaction example_env (Some ''bob'') ''post'' ''p1'' None example_db))
        ''post'' ''p1'' = Some 2"
proof -
  let ?s1 = "fst (add_reaction example_env (Some ''bob'') ''group'' ''g1'' None example_db)"
  have absent: "fmlookup (reactions example_db) (''group'', ''g1'', ''bob'') = None"
    by (simp add: example_db_def)
  have first: "add_reaction example_env (Some ''bob'') ''group'' ''g1'' None example_db
     = (example_db\<lparr>reactions := fmupd (''group'', ''g1'', ''bob'')
                                   \<lparr>r_id = ''r9'', r_type = ''like''\<rparr> (reactions example_db)\<rparr>,
        Respond 201 (ReactionBody None ''added'' (Some \<lparr>r_id = ''r9'', r_type = ''like''\<rparr>)))"
    using add_reaction_other_target_types [of "''bob''" "''group''" example_db "''g1''" example_env None]
      absent by (simp add: example_env_def default_type_def)
  then have present: "fmlookup (reactions ?s1) (''group'', ''g1'', ''bob'') \<noteq> None"
    by simp
  have counter: "reactionCount example_db ''post'' ''p1'' = Some 1"
    by (simp add: example_db_def reactionCount_def example_post_def)
  have none: "\<not> has_reaction example_db ''post'' ''p1'' ''bob''"
    by (simp add: example_db_def has_reaction_def)
  show ?thesis
    using first present counter none
      add_reaction_other_target_types [of "''bob''" "''group''" example_db "''g1''" example_env None]
      add_reaction_other_target_types [of "''bob''" "''group''" ?s1 "''g1''" example_env None]
      add_reaction_other_target_types [of "''bob''" "''post''" example_db "''p1''" example_env None]
    by simp
qed

subsection \<open>Notifications are best effort\<close>

lemma createNotification_result:
  "createNotification e userId payload s =
     Inr (if notif_create_fails e
          then s\<lparr>console := console s @ [''Error creating notification:'']\<rparr>
          else s\<lparr>notifications := notifications s @ [new_notification e 0 userId payload]\<rparr>)"
  by (simp add: createNotification_def notification_createMany_def)

lemma createBulkNotifications_result:
  "createBulkNotifications e userIds payload s =
     Inr (if notif_create_fails e
          then s\<lparr>console := console s @ [''Error creating bulk notifications:'']\<rparr>
          else s\<lparr>notifications := notifications s
                 @ map (\<lambda>(k, userId). new_notification e k userId payload) (enumerate 0 userIds)\<rparr>)"
  by (simp add: createBulkNotifications_def notification_createMany_def)

lemma primary_createNotification:
  "createNotification e userId payload s = Inr s' \<Longrightarrow> primary_tables s' = primary_tables s"
  by (auto simp: createNotification_result primary_tables_def split: if_splits)

lemma primary_createBulk:
  "createBulkNotifications e userIds payload s = Inr s' \<Longrightarrow> primary_tables s' = primary_tables s"
  by (auto simp: createBulkNotifications_result primary_tables_def split: if_splits)

lemma primary_sendReaction:
  "sendReactionNotification e a r t i k s = Inr s' \<Longrightarrow> primary_tables s' = primary_tables s"
  by (auto simp: sendReactionNotification_def user_findUnique_def
        split: if_splits option.splits dest: primary_createNotification)

lemma primary_sendReply:
  "sendReplyNotification e a r p c k s = Inr s' \<Longrightarrow> primary_tables s' = primary_tables s"
  by (auto simp: sendReplyNotification_def user_findUnique_def
        split: if_splits option.splits dest: primary_createNotification)

lemma primary_swallow:
  "(\<And>s'. r = Inr s' \<Longrightarrow> primary_tables s' = primary_tables s) \<Longrightarrow>
   primary_tables (swallow msg s r) = primary_tables s"
  by (cases r) (auto simp: swallow_def primary_tables_def)

lemma primary_reaction_block:
  "primary_tables (swallow msg s (reaction_notification_block e u i k s)) = primary_tables s"
  by (rule primary_swallow)
     (auto simp: reaction_notification_block_def post_findUnique_def
        split: if_splits option.splits dest: primary_sendReaction)

lemma primary_reply_block:
  "primary_tables (swallow msg s (reply_notification_block e u i c k s)) = primary_tables s"
  by (rule primary_swallow)
     (auto simp: reply_notification_block_def post_findUnique_def
        split: if_splits option.splits dest: primary_sendReply)

lemma primary_group_post_block:
  "primary_tables (swallow msg s (group_post_notification_block e u g i s)) = primary_tables s"
  by (rule primary_swallow)
     (auto simp: group_post_notification_block_def Let_def
        split: if_splits dest: primary_createBulk)

lemma primary_join_block:
  "primary_tables (swallow msg s (join_notification_block e u usr g m s)) = primary_tables s"
  by (rule primary_swallow)
     (auto simp: join_notification_block_def split: if_splits dest: primary_createNotification)

lemma with_faults_fields:
  "now (with_faults a b c d e) = now e" "row_id (with_faults a b c d e) = row_id e"
  by (simp_all add: with_faults_def)

lemma react_to_post_primary:
  "snd (react_to_post e userId postId type s) = snd (react_to_post e' userId postId type s)
   \<and> primary_tables (fst (react_to_post e userId postId type s))
     = primary_tables (fst (react_to_post e' userId postId type s))"
  if "row_id e = row_id e'"
  using that
  by (auto simp: react_to_post_def Let_def primary_reaction_block
        split: option.splits sum.splits)

lemma create_post_comment_primary:
  "snd (create_post_comment e userId postId content parentId s)
     = snd (create_post_comment e' userId postId content parentId s)
   \<and> primary_tables (fst (create_post_comment e userId postId content parentId s))
     = primary_tables (fst (create_post_comment e' userId postId content parentId s))"
  if "row_id e = row_id e'"
  using that
  by (auto simp: create_post_comment_def Let_def primary_reply_block
        split: option.splits sum.splits)

lemma create_post_primary:
  "snd (create_post e userId inp s) = snd (create_post e' userId inp s)
   \<and> primary_tables (fst (create_post e userId inp s))
     = primary_tables (fst (create_post e' userId inp s))"
  if "row_id e = row_id e'" "now e = now e'"
  using that
  by (auto simp: create_post_def Let_def primary_group_post_block
        split: option.splits sum.splits)

lemma join_group_primary:
  "snd (join_group e userId slug s) = snd (join_group e' userId slug s)
   \<and> primary_tables (fst (join_group e userId slug s))
     = primary_tables (fst (join_group e' userId slug s))"
  by (auto simp: join_group_def Let_def primary_join_block
        split: option.splits sum.splits)


text \<open>
  C2. \<^verbatim>\<open>createNotification\<close> persists exactly one notification for the recipient, with
  status scheduled, \<^verbatim>\<open>scheduledFor\<close> the current time and \<^verbatim>\<open>readAt\<close> null; when the
  insert fails it prints the error, persists nothing and still returns normally. The
  routes that notify (reacting to a post, commenting on a post, creating a post, joining a
  group) give the same response and leave the same primary tables whatever the storage
  calls of the notification path do.
\<close>

theorem notification_is_best_effort:
  "(\<not> notif_create_fails e \<longrightarrow>
      createNotification e userId payload s
        = Inr (s\<lparr>notifications := notifications s @ [new_notification e 0 userId payload]\<rparr>)
      \<and> n_userId (new_notification e 0 userId payload) = userId
      \<and> n_status (new_notification e 0 userId payload) = Scheduled
      \<and> n_scheduledFor (new_notification e 0 userId payload) = now e
      \<and> n_readAt (new_notification e 0 userId payload) = None)
   \<and> (notif_create_fails e \<longrightarrow>
      createNotification e userId payload s
        = Inr (s\<lparr>console := console s @ [''Error creating notification:'']\<rparr>))
   \<and> snd (react_to_post (with_faults a b c d e) uid postId type s)
       = snd (react_to_post e uid postId type s)
   \<and> primary_tables (fst (react_to_post (with_faults a b c d e) uid postId type s))
       = primary_tables (fst (react_to_post e uid postId type s))
   \<and> snd (create_post_comment (with_faults a b c d e) uid postId content parentId s)
       = snd (create_post_comment e uid postId content parentId s)
   \<and> primary_tables (fst (create_post_comment (with_faults a b c d e) uid postId content parentId s))
       = primary_tables (fst (create_post_comment e uid postId content parentId s))
   \<and> snd (create_post (with_faults a b c d e) uid inp s) = snd (create_post e uid inp s)
   \<and> primary_tables (fst (create_post (with_faults a b c d e) uid inp s))
       = primary_tables (fst (create_post e uid inp s))
   \<and> snd (join_group (with_faults a b c d e) uid slug s) = snd (join_group e uid slug s)
   \<and> primary_tables (fst (join_group (with_faults a b c d e) uid slug s))
       = primary_tables (fst (join_group e uid slug s))"
proof -
  have f: "row_id (with_faults a b c d e) = row_id e" "now (with_faults a b c d e) = now e"
    by (simp_all add: with_faults_fields)
  have "\<not> notif_create_fails e \<longrightarrow>
      createNotification e userId payload s
        = Inr (s\<lparr>notifications := notifications s @ [new_notification e 0 userId payload]\<rparr>)
      \<and> n_userId (new_notification e 0 userId payload) = userId
      \<and> n_status (new_notification e 0 userId payload) = Scheduled
      \<and> n_scheduledFor (new_notification e 0 userId payload) = now e
      \<and> n_readAt (new_notification e 0 userId payload) = None"
    by (simp add: createNotification_result new_notification_def)
  moreover have "notif_create_fails e \<longrightarrow>
      createNotification e userId payload s
        = Inr (s\<lparr>console := console s @ [''Error creating notification:'']\<rparr>)"
    by (simp add: createNotification_result)
  ultimately show ?thesis
    using react_to_post_primary [OF f(1), of uid postId type s]
      create_post_comment_primary [OF f(1), of uid postId content parentId s]
      create_post_primary [OF f, of uid inp s]
      join_group_primary [of "with_faults a b c d e" uid slug s e]
    by blast
qed

theorem notification_is_best_effort_witness:
  "createNotification example_env ''alice'' example_payload example_db
     = Inr (example_db\<lparr>notifications := notifications example_db
              @ [new_notification example_env 0 ''alice'' example_payload]\<rparr>)
   \<and> n_status (new_notification example_env 0 ''alice'' example_payload) = Scheduled
   \<and> n_scheduledFor (new_notification example_env 0 ''alice'' example_payload) = 5000
   \<and> n_readAt (new_notification example_env 0 ''alice'' example_payload) = None
   \<and> createNotification (example_env\<lparr>notif_create_fails := True\<rparr>) ''alice'' example_payload example_db
     = Inr (example_db\<lparr>console := console example_db @ [''Error creating notification:'']\<rparr>)
   \<and> snd (react_to_post (with_faults True True True True example_env) (Some ''bob'') ''p1'' None example_db)
     = Respond 200 (ReactionBody (Some ''Post erfolgreich geliked!'') ''added''
         (Some \<lparr>r_id = ''r9'', r_type = ''like''\<rparr>))"
proof -
  have liked: "snd (react_to_post example_env (Some ''bob'') ''p1'' None example_db)
      = Respond 200 (ReactionBody (Some ''Post erfolgreich geliked!'') ''added''
          (Some \<lparr>r_id = ''r9'', r_type = ''like''\<rparr>))"
    by (simp add: react_to_post_def example_db_def example_post_def post_update_def Let_def
          example_env_def default_type_def)
  have ok: "\<not> notif_create_fails example_env"
    and bad: "notif_create_fails (example_env\<lparr>notif_create_fails := True\<rparr>)"
    and clock: "now example_env = 5000"
    by (simp_all add: example_env_def)
  show ?thesis
    using notification_is_best_effort [where e = example_env and userId = "''alice''"
            and payload = example_payload and s = example_db and a = True and b = True
            and c = True and d = True and uid = "Some ''bob''" and postId = "''p1''"
            and type = None]
      notification_is_best_effort [where e = "example_env\<lparr>notif_create_fails := True\<rparr>"
            and userId = "''alice''" and payload = example_payload and s = example_db]
      ok bad clock liked
    by simp
qed

subsection \<open>The event builders\<close>

text \<open>
  C3, as amended. The reply and the reaction builder create no notification when the actor
  is the author of the content, and none when the actor's user record cannot be resolved;
  in both cases, unless the lookup itself rejects, the call returns normally and leaves the
  storage as it was.
\<close>

theorem reply_and_reaction_guards:
  "created s (sendReplyNotification e author author postId commentId content s) = []
   \<and> created s (sendReactionNotification e author author targetType targetId reactionType s) = []
   \<and> (\<not> user_lookup_fails e \<longrightarrow>
        sendReplyNotification e author author postId commentId content s = Inr s
        \<and> sendReactionNotification e author author targetType targetId reactionType s = Inr s)
   \<and> (users s actor = None \<longrightarrow>
        created s (sendReplyNotification e author actor postId commentId content s) = []
        \<and> created s (sendReactionNotification e author actor targetType targetId reactionType s) = [])
   \<and> (users s actor = None \<and> \<not> user_lookup_fails e \<longrightarrow>
        sendReplyNotification e author actor postId commentId content s = Inr s
        \<and> sendReactionNotification e author actor targetType targetId reactionType s = Inr s)"
  by (auto simp: sendReplyNotification_def sendReactionNotification_def user_findUnique_def
        created_def split: option.splits)

theorem reply_and_reaction_guards_witness:
  "sendReplyNotification example_env ''alice'' ''alice'' ''p1'' ''c1'' ''hi'' example_db = Inr example_db
   \<and> sendReactionNotification example_env ''alice'' ''alice'' ''post'' ''p1'' ''like'' example_db
       = Inr example_db
   \<and> sendReplyNotification example_env ''alice'' ''carol'' ''p1'' ''c1'' ''hi'' example_db = Inr example_db
   \<and> sendReactionNotification example_env ''alice'' ''carol'' ''post'' ''p1'' ''like'' example_db
       = Inr example_db"
proof -
  have up: "\<not> user_lookup_fails example_env"
    by (simp add: example_env_def)
  have carol: "users example_db ''carol'' = None"
    by (simp add: example_db_def)
  show ?thesis
    using up carol
      reply_and_reaction_guards [where e = example_env and s = example_db and author = "''alice''"
        and actor = "''carol''" and postId = "''p1''" and commentId = "''c1''" and content = "''hi''"
        and targetType = "''post''" and targetId = "''p1''" and reactionType = "''like''"]
    by simp
qed

text \<open>
  The mention builder has no such guard: a user who mentions themselves gets a notification.
\<close>

theorem mention_notifies_self:
  "map n_userId (created example_db
      (sendMentionNotification example_env ''alice'' ''alice'' ''post'' ''p1'' ''hi'' example_db))
     = [''alice'']"
  by (simp add: sendMentionNotification_def user_findUnique_def example_env_def example_db_def
        createNotification_result created_def new_notification_def)

text \<open>
  C7. A mention or reply notification stores the quoted content as it is when it has at
  most 100 code units, and otherwise its first 100 code units followed by the three-dot
  marker.
\<close>

theorem quoted_content_truncation:
  assumes "users s actor = Some a" and "\<not> user_lookup_fails e" and "\<not> notif_create_fails e"
  shows "map n_data (created s
            (sendMentionNotification e recipient actor targetType targetId content s))
           = [MentionData actor targetType targetId
                (if 100 < length content then take 100 content @ ''...'' else content)]
       \<and> (recipient \<noteq> actor \<longrightarrow>
            map n_data (created s
              (sendReplyNotification e recipient actor postId commentId content s))
            = [ReplyData actor postId commentId
                 (if 100 < length content then take 100 content @ ''...'' else content)])
       \<and> (100 < length content \<longrightarrow>
            length (content_excerpt content) = 103
            \<and> take 100 (content_excerpt content) = take 100 content
            \<and> drop 100 (content_excerpt content) = ''...'')
       \<and> (length content \<le> 100 \<longrightarrow> content_excerpt content = content)"
  using assms
  by (auto simp: sendMentionNotification_def sendReplyNotification_def user_findUnique_def
        createNotification_result created_def new_notification_def content_excerpt_def)

theorem quoted_content_truncation_witness:
  "map n_data (created example_db
      (sendMentionNotification example_env ''alice'' ''bob'' ''post'' ''p1''
         (replicate 101 (CHR ''a'')) example_db))
     = [MentionData ''bob'' ''post'' ''p1'' (replicate 100 (CHR ''a'') @ ''...'')]
   \<and> map n_data (created example_db
      (sendReplyNotification example_env ''alice'' ''bob'' ''p1'' ''c1''
         (replicate 101 (CHR ''a'')) example_db))
     = [ReplyData ''bob'' ''p1'' ''c1'' (replicate 100 (CHR ''a'') @ ''...'')]
   \<and> map n_data (created example_db
      (sendReplyNotification example_env ''alice'' ''bob'' ''p1'' ''c1'' ''Nice'' example_db))
     = [ReplyData ''bob'' ''p1'' ''c1'' ''Nice'']
   \<and> content_excerpt ''Nice'' = ''Nice''"
proof -
  have bob: "users example_db ''bob'' = Some \<lparr>u_name = None, u_handle = Some ''bob''\<rparr>"
    by (simp add: example_db_def)
  have up: "\<not> user_lookup_fails example_env" "\<not> notif_create_fails example_env"
    by (simp_all add: example_env_def)
  show ?thesis
    using quoted_content_truncation [OF bob up, of "''alice''" "''post''" "''p1''"
            "replicate 101 (CHR ''a'')" "''p1''" "''c1''"]
      quoted_content_truncation [OF bob up, of "''alice''" "''post''" "''p1''" "''Nice''" "''p1''" "''c1''"]
    by simp
qed

subsection \<open>The inbox list\<close>

lemma newest_first_sorted:
  "sorted_wrt (\<lambda>a b. n_createdAt b \<le> n_createdAt a) (newest_first rows)"
proof -
  have "sorted (map (\<lambda>n. - int (n_createdAt n)) (newest_first rows))"
    unfolding newest_first_def by (rule sorted_sort_key)
  then show ?thesis
    by (simp add: sorted_wrt_map)
qed

lemma unread_only_where:
  "filter (inbox_where u (Some ''true'')) ns = filter (unread_of u) ns"
  by (rule filter_cong) (auto simp: inbox_where_def unread_of_def)

lemma inbox_response:
  assumes "u \<noteq> []" and "1 \<le> page" and "0 \<le> limit"
  shows "list_notifications (Some u) (Some page) (Some limit) unreadOnly s
     = Respond 200
         (InboxBody
            (map transform
               (take (nat limit) (drop (nat ((page - 1) * limit))
                  (newest_first (filter (inbox_where u unreadOnly) (notifications s))))))
            (length (filter (unread_of u) (notifications s)))
            \<lparr> pg_page = page, pg_limit = limit,
              pg_total = length (filter (inbox_where u unreadOnly) (notifications s)),
              pg_pages = pages (length (filter (inbox_where u unreadOnly) (notifications s))) limit,
              pg_hasMore = None \<rparr>)"
proof -
  have "0 \<le> (page - 1) * limit" using assms(2,3) by simp
  then have "\<not> (page - 1) * limit < 0" by simp
  then show ?thesis
    using assms
    by (simp add: list_notifications_def skip_take_def default_page_def default_limit_def Let_def)
qed

text \<open>
  C6, as amended. For an authenticated user, a page number of at least 1 and a page size of
  at least 0, the inbox list returns the user's matching notifications newest first, from
  offset (page - 1) * limit, at most limit of them, and an \<^verbatim>\<open>unreadCount\<close> counted over
  all of the user's unread notifications, whatever the page, the page size and
  \<^verbatim>\<open>unreadOnly\<close> are. With \<^verbatim>\<open>unreadOnly=true\<close> the number of items is the smaller
  of the page size and the number of unread notifications left after the offset: for a
  user with 3 unread and 2 read notifications, 3 items on the first page when the page size
  is at least 3, and an \<^verbatim>\<open>unreadCount\<close> of 3 for every page size.
\<close>

theorem inbox_page:
  assumes "u \<noteq> []" and "1 \<le> page" and "0 \<le> limit"
  shows "inbox_items (list_notifications (Some u) (Some page) (Some limit) unreadOnly s)
           = map transform
               (take (nat limit) (drop (nat ((page - 1) * limit))
                  (newest_first (filter (inbox_where u unreadOnly) (notifications s)))))
       \<and> sorted_wrt (\<lambda>a b. v_createdAt b \<le> v_createdAt a)
           (inbox_items (list_notifications (Some u) (Some page) (Some limit) unreadOnly s))
       \<and> inbox_unreadCount (list_notifications (Some u) (Some page) (Some limit) unreadOnly s)
           = Some (length (filter (unread_of u) (notifications s)))
       \<and> length (inbox_items (list_notifications (Some u) (Some page) (Some limit) unreadOnly s))
           = min (nat limit)
               (length (filter (inbox_where u unreadOnly) (notifications s))
                  - nat ((page - 1) * limit))
       \<and> length (inbox_items (list_notifications (Some u) (Some page) (Some limit) (Some ''true'') s))
           = min (nat limit)
               (length (filter (unread_of u) (notifications s)) - nat ((page - 1) * limit))"
proof -
  let ?all = "newest_first (filter (inbox_where u unreadOnly) (notifications s))"
  let ?rows = "take (nat limit) (drop (nat ((page - 1) * limit)) ?all)"
  have items: "inbox_items (list_notifications (Some u) (Some page) (Some limit) unreadOnly s)
                 = map transform ?rows"
    by (simp add: inbox_response [OF assms] inbox_items_def)
  have "sorted_wrt (\<lambda>a b. n_createdAt b \<le> n_createdAt a) ?rows"
    by (intro sorted_wrt_take sorted_wrt_drop newest_first_sorted)
  then have sorted: "sorted_wrt (\<lambda>a b. v_createdAt b \<le> v_createdAt a) (map transform ?rows)"
    by (simp add: sorted_wrt_map transform_def)
  have unread: "inbox_unreadCount (list_notifications (Some u) (Some page) (Some limit) unreadOnly s)
                  = Some (length (filter (unread_of u) (notifications s)))"
    by (simp add: inbox_response [OF assms] inbox_unreadCount_def)
  have len: "length (inbox_items (list_notifications (Some u) (Some page) (Some limit) w s))
           = min (nat limit)
               (length (filter (inbox_where u w) (notifications s)) - nat ((page - 1) * limit))" for w
    by (simp add: inbox_response [OF assms] inbox_items_def newest_first_def)
  show ?thesis
    using items sorted unread len [of unreadOnly] len [of "Some ''true''"]
    by (simp add: unread_only_where)
qed

lemma example_unread:
  "length (filter (unread_of ''alice'') (notifications example_db)) = 3"
  "length (filter (\<lambda>n. n_userId n = ''alice'' \<and> n_readAt n \<noteq> None) (notifications example_db)) = 2"
  by (simp_all add: example_db_def example_note_def unread_of_def)

theorem inbox_page_witness:
  "length (inbox_items (list_notifications (Some ''alice'') (Some 1) (Some 3) (Some ''true'') example_db)) = 3
   \<and> length (inbox_items (list_notifications (Some ''alice'') (Some 1) (Some 20) (Some ''true'') example_db)) = 3
   \<and> length (inbox_items (list_notifications (Some ''alice'') (Some 2) (Some 2) (Some ''true'') example_db)) = 1
   \<and> inbox_unreadCount (list_notifications (Some ''alice'') (Some 1) (Some 3) None example_db) = Some 3
   \<and> inbox_unreadCount (list_notifications (Some ''alice'') (Some 2) (Some 2) (Some ''true'') example_db)
       = Some 3"
proof -
  have alice: "''alice'' \<noteq> []" by simp
  have len: "length (inbox_items
                (list_notifications (Some ''alice'') (Some page) (Some limit) (Some ''true'') example_db))
              = min (nat limit) (3 - nat ((page - 1) * limit))"
    if "1 \<le> page" "0 \<le> limit" for page limit
    using inbox_page [OF alice that, of None example_db] example_unread(1) by simp
  have unread: "inbox_unreadCount
                  (list_notifications (Some ''alice'') (Some page) (Some limit) w example_db) = Some 3"
    if "1 \<le> page" "0 \<le> limit" for page limit w
    using inbox_page [OF alice that, of w example_db] example_unread(1) by simp
  show ?thesis
    using len [of 1 3] len [of 1 20] len [of 2 2] unread [of 1 3 None] unread [of 2 2 "Some ''true''"]
    by simp
qed

text \<open>
  With three unread notifications and a page size of two, the unread-only list has two
  items: the number of items follows the page size.
\<close>

theorem unread_page_of_two:
  "length (filter (unread_of ''alice'') (notifications example_db)) = 3
   \<and> length (filter (\<lambda>n. n_userId n = ''alice'' \<and> n_readAt n \<noteq> None) (notifications example_db)) = 2
   \<and> map v_id (inbox_items
        (list_notifications (Some ''alice'') (Some 1) (Some 2) (Some ''true'') example_db))
       = [''n3'', ''n2'']"
  by (simp add: list_notifications_def inbox_items_def skip_take_def default_page_def
        default_limit_def Let_def example_db_def example_note_def inbox_where_def
        newest_first_def transform_def unread_of_def)


subsection \<open>The feed\<close>

lemma take_drop_member: "x \<in> set (take a (drop b xs)) \<Longrightarrow> x \<in> set xs"
  by (meson in_set_takeD in_set_dropD)

lemma skip_take_subset:
  "skip_take k n rows = Inr ys \<Longrightarrow> set ys \<subseteq> set rows"
proof
  fix x assume x: "x \<in> set ys"
  assume r: "skip_take k n rows = Inr ys"
  show "x \<in> set rows"
  proof (cases "0 \<le> n")
    case True
    then have "ys = take (nat n) (drop (nat k) rows)"
      using r by (simp add: skip_take_def split: if_splits)
    then show ?thesis using x take_drop_member by fastforce
  next
    case False
    then have "ys = rev (take (nat (- n)) (drop (nat k) (rev rows)))"
      using r by (simp add: skip_take_def split: if_splits)
    then have "x \<in> set (take (nat (- n)) (drop (nat k) (rev rows)))" using x by simp
    then have "x \<in> set (rev rows)" by (rule take_drop_member)
    then show ?thesis by simp
  qed
qed

lemma set_feed_order: "set (feed_order mode rows) = set rows"
  by (simp add: feed_order_def)

lemma length_feed_order: "length (feed_order mode rows) = length rows"
  by (simp add: feed_order_def)

lemma feed_where_page: "feed_where contains (q\<lparr>q_page := p\<rparr>) s = feed_where contains q s"
  by (rule ext) (simp add: feed_where_def)

lemma feed_skip_cursor: "truthy (q_cursor q) \<Longrightarrow> feed_skip (q\<lparr>q_page := p\<rparr>) = 0"
  by (simp add: feed_skip_def)

lemma list_feed_cursor:
  assumes "truthy (q_cursor q)"
  shows "\<exists>rows. skip_take 0 (default_limit (q_limit q))
                  (feed_order (q_sort q) (filter (feed_where contains q s) (posts s))) = Inr rows
     \<and> (\<forall>p. list_feed contains (q\<lparr>q_page := p\<rparr>) s
         = Respond 200
            (FeedBody rows
               \<lparr> pg_page = default_page p, pg_limit = default_limit (q_limit q),
                 pg_total = length (filter (feed_where contains q s) (posts s)),
                 pg_pages = pages (length (filter (feed_where contains q s) (posts s)))
                              (default_limit (q_limit q)),
                 pg_hasMore = Some (0 + default_limit (q_limit q)
                                < int (length (filter (feed_where contains q s) (posts s)))) \<rparr>))"
proof -
  obtain rows where rows: "skip_take 0 (default_limit (q_limit q))
      (feed_order (q_sort q) (filter (feed_where contains q s) (posts s))) = Inr rows"
    by (cases "0 \<le> default_limit (q_limit q)") (simp_all add: skip_take_def)
  then show ?thesis
    using assms by (simp add: list_feed_def Let_def feed_where_page feed_skip_cursor)
qed


text \<open>
  C9. When the feed request carries a (non-empty) cursor, the offset is zero, every item
  has an id strictly below the cursor, and the items, the total and \<^verbatim>\<open>hasMore\<close> are
  the same for every page argument. Without a cursor, for a page number of at least 1 and
  a page size of at least 0, the items start at offset (page - 1) * limit. In both modes
  \<^verbatim>\<open>hasMore\<close> is offset + limit < total.
\<close>

theorem feed_pagination_modes:
  "(q_cursor q = Some cursor \<and> cursor \<noteq> [] \<longrightarrow>
      feed_items (list_feed contains (q\<lparr>q_page := p\<rparr>) s) = feed_items (list_feed contains q s)
      \<and> map_option pg_total (feed_pagination (list_feed contains (q\<lparr>q_page := p\<rparr>) s))
          = map_option pg_total (feed_pagination (list_feed contains q s))
      \<and> map_option pg_hasMore (feed_pagination (list_feed contains (q\<lparr>q_page := p\<rparr>) s))
          = map_option pg_hasMore (feed_pagination (list_feed contains q s))
      \<and> (\<forall>x \<in> set (feed_items (list_feed contains q s)). post_id x < cursor)
      \<and> (0 \<le> default_limit (q_limit q) \<longrightarrow>
           feed_items (list_feed contains q s)
             = take (nat (default_limit (q_limit q)))
                 (feed_order (q_sort q) (filter (feed_where contains q s) (posts s))))
      \<and> map_option pg_hasMore (feed_pagination (list_feed contains q s))
          = Some (Some (0 + default_limit (q_limit q)
                          < int (length (filter (feed_where contains q s) (posts s))))))
   \<and> (\<not> truthy (q_cursor q) \<and> 1 \<le> default_page (q_page q) \<and> 0 \<le> default_limit (q_limit q) \<longrightarrow>
      feed_items (list_feed contains q s)
        = take (nat (default_limit (q_limit q)))
            (drop (nat ((default_page (q_page q) - 1) * default_limit (q_limit q)))
               (feed_order (q_sort q) (filter (feed_where contains q s) (posts s))))
      \<and> map_option pg_hasMore (feed_pagination (list_feed contains q s))
          = Some (Some ((default_page (q_page q) - 1) * default_limit (q_limit q)
                          + default_limit (q_limit q)
                          < int (length (filter (feed_where contains q s) (posts s))))))"
proof (intro conjI impI)
  assume c: "q_cursor q = Some cursor \<and> cursor \<noteq> []"
  then have tr: "truthy (q_cursor q)" by (simp add: truthy_def)
  let ?all = "feed_order (q_sort q) (filter (feed_where contains q s) (posts s))"
  obtain rows where rows: "skip_take 0 (default_limit (q_limit q)) ?all = Inr rows"
    and resp: "\<And>p. list_feed contains (q\<lparr>q_page := p\<rparr>) s
         = Respond 200
            (FeedBody rows
               \<lparr> pg_page = default_page p, pg_limit = default_limit (q_limit q),
                 pg_total = length (filter (feed_where contains q s) (posts s)),
                 pg_pages = pages (length (filter (feed_where contains q s) (posts s)))
                              (default_limit (q_limit q)),
                 pg_hasMore = Some (0 + default_limit (q_limit q)
                                < int (length (filter (feed_where contains q s) (posts s)))) \<rparr>)"
    using list_feed_cursor [OF tr, of contains s] by blast
  have resp0: "list_feed contains q s
         = Respond 200
            (FeedBody rows
               \<lparr> pg_page = default_page (q_page q), pg_limit = default_limit (q_limit q),
                 pg_total = length (filter (feed_where contains q s) (posts s)),
                 pg_pages = pages (length (filter (feed_where contains q s) (posts s)))
                              (default_limit (q_limit q)),
                 pg_hasMore = Some (0 + default_limit (q_limit q)
                                < int (length (filter (feed_where contains q s) (posts s)))) \<rparr>)"
    using resp [of "q_page q"] by simp
  show "feed_items (list_feed contains (q\<lparr>q_page := p\<rparr>) s) = feed_items (list_feed contains q s)"
    by (simp only: resp resp0 feed_items_def response.case body.case)
  show "map_option pg_total (feed_pagination (list_feed contains (q\<lparr>q_page := p\<rparr>) s))
          = map_option pg_total (feed_pagination (list_feed contains q s))"
    unfolding resp resp0 by (simp add: feed_pagination_def)
  show "map_option pg_hasMore (feed_pagination (list_feed contains (q\<lparr>q_page := p\<rparr>) s))
          = map_option pg_hasMore (feed_pagination (list_feed contains q s))"
    unfolding resp resp0 by (simp add: feed_pagination_def)
  show "map_option pg_hasMore (feed_pagination (list_feed contains q s))
          = Some (Some (0 + default_limit (q_limit q)
                          < int (length (filter (feed_where contains q s) (posts s)))))"
    unfolding resp0 by (simp add: feed_pagination_def)
  have items0: "feed_items (list_feed contains q s) = rows"
    unfolding resp0 by (simp add: feed_items_def)
  show "\<forall>x \<in> set (feed_items (list_feed contains q s)). post_id x < cursor"
  proof
    fix x assume "x \<in> set (feed_items (list_feed contains q s))"
    then have "x \<in> set rows" using items0 by simp
    then have "x \<in> set ?all" using skip_take_subset [OF rows] by blast
    then have "feed_where contains q s x" by (simp add: set_feed_order)
    then show "post_id x < cursor" using c by (simp add: feed_where_def or_null_def truthy_def)
  qed
  show "feed_items (list_feed contains q s) = take (nat (default_limit (q_limit q))) ?all"
    if "0 \<le> default_limit (q_limit q)"
    using items0 rows that by (simp add: skip_take_def)
next
  assume a: "\<not> truthy (q_cursor q) \<and> 1 \<le> default_page (q_page q) \<and> 0 \<le> default_limit (q_limit q)"
  then have "0 \<le> (default_page (q_page q) - 1) * default_limit (q_limit q)" by simp
  then have nonneg: "\<not> (default_page (q_page q) - 1) * default_limit (q_limit q) < 0" by simp
  show "feed_items (list_feed contains q s)
        = take (nat (default_limit (q_limit q)))
            (drop (nat ((default_page (q_page q) - 1) * default_limit (q_limit q)))
               (feed_order (q_sort q) (filter (feed_where contains q s) (posts s))))"
    using a nonneg by (simp add: list_feed_def Let_def feed_skip_def skip_take_def feed_items_def)
  show "map_option pg_hasMore (feed_pagination (list_feed contains q s))
          = Some (Some ((default_page (q_page q) - 1) * default_limit (q_limit q)
                          + default_limit (q_limit q)
                          < int (length (filter (feed_where contains q s) (posts s)))))"
    using a nonneg
    by (simp add: list_feed_def Let_def feed_skip_def skip_take_def feed_pagination_def)
qed


lemma example_feed_rows:
  "map post_id (feed_order None (filter (feed_where contains keyset_query example_db) (posts example_db)))
     = [''p2'', ''p1'']"
  "map post_id (feed_order None (filter (feed_where contains offset_query example_db) (posts example_db)))
     = [''p3'', ''p2'', ''p1'']"
  by (simp_all add: keyset_query_def offset_query_def example_db_def example_post_def
        feed_where_def feed_order_def or_null_def truthy_def less_char_def)

theorem feed_pagination_modes_witness:
  "map post_id (feed_items (list_feed (\<lambda>a b. False) keyset_query example_db)) = [''p2'']
   \<and> feed_items (list_feed (\<lambda>a b. False) (keyset_query\<lparr>q_page := Some 1\<rparr>) example_db)
       = feed_items (list_feed (\<lambda>a b. False) keyset_query example_db)
   \<and> map_option pg_hasMore (feed_pagination (list_feed (\<lambda>a b. False) keyset_query example_db))
       = Some (Some True)
   \<and> map post_id (feed_items (list_feed (\<lambda>a b. False) offset_query example_db)) = [''p2'']
   \<and> map_option pg_hasMore (feed_pagination (list_feed (\<lambda>a b. False) offset_query example_db))
       = Some (Some True)"
proof -
  let ?c = "\<lambda>(a::string) (b::string). False"
  have k: "q_cursor keyset_query = Some ''p3'' \<and> ''p3'' \<noteq> []"
      "default_limit (q_limit keyset_query) = 1" "q_sort keyset_query = None"
    by (simp_all add: keyset_query_def default_limit_def)
  have o: "\<not> truthy (q_cursor offset_query) \<and> 1 \<le> default_page (q_page offset_query)
             \<and> 0 \<le> default_limit (q_limit offset_query)"
      "default_limit (q_limit offset_query) = 1" "default_page (q_page offset_query) = 2"
      "q_sort offset_query = None"
    by (simp_all add: offset_query_def default_limit_def default_page_def truthy_def)
  have lk: "length (filter (feed_where ?c keyset_query example_db) (posts example_db)) = 2"
    using arg_cong [OF example_feed_rows(1) [of ?c], of length] by (simp add: length_feed_order)
  have lo: "length (filter (feed_where ?c offset_query example_db) (posts example_db)) = 3"
    using arg_cong [OF example_feed_rows(2) [of ?c], of length] by (simp add: length_feed_order)
  have ik: "map post_id (feed_items (list_feed ?c keyset_query example_db)) = [''p2'']"
    using feed_pagination_modes [of keyset_query "''p3''" ?c "Some 1" example_db] k
      example_feed_rows(1) [of ?c]
    by (simp add: take_map [symmetric])
  have io: "map post_id (feed_items (list_feed ?c offset_query example_db)) = [''p2'']"
    using feed_pagination_modes [of offset_query "''p3''" ?c "Some 1" example_db] o
      example_feed_rows(2) [of ?c]
    by (simp add: take_map [symmetric] drop_map [symmetric])
  show ?thesis
    using ik io lk lo k o
      feed_pagination_modes [of keyset_query "''p3''" ?c "Some 1" example_db]
      feed_pagination_modes [of offset_query "''p3''" ?c "Some 1" example_db]
    by simp
qed

end
